theory Spec2Isabelle
  imports Complex_Main
begin

section \<open>JavaScript numbers\<close>

text \<open>
  A number is an IEEE 754 binary64 value: a finite value, one of the two infinities, or
  \<open>NaN\<close>. A finite value is kept as the rational it denotes; the two zeros are not told
  apart (none of the modelled code divides by a zero or inspects its sign). An arithmetic
  operation on finite values yields the exact result rounded to the nearest binary64
  value, ties to the even significand, with overflow to an infinity.
\<close>

datatype jsnum = Num rat | PosInf | NegInf | NaN

text \<open>The number of binary digits of a natural number.\<close>

fun bits :: "nat \<Rightarrow> nat" where
  "bits n = (if n = 0 then 0 else Suc (bits (n div 2)))"

declare bits.simps [simp del]

definition pow2 :: "int \<Rightarrow> rat" where
  "pow2 k = (if 0 \<le> k then 2 ^ nat k else 1 / 2 ^ nat (- k))"

text \<open>For a positive \<open>m\<close>, the exponent \<open>e\<close> with \<open>2\<^sup>e \<le> m < 2\<^sup>e\<^sup>+\<^sup>1\<close>.\<close>

definition exponentOf :: "rat \<Rightarrow> int" where
  "exponentOf m =
     (if 1 \<le> m then int (bits (nat \<lfloor>m\<rfloor>)) - 1
      else - int (bits (nat (\<lceil>1 / m\<rceil> - 1))))"

definition roundHalfEven :: "rat \<Rightarrow> int" where
  "roundHalfEven q =
     (let f = \<lfloor>q\<rfloor>; r = q - of_int f
      in if r < 1 / 2 then f
         else if 1 / 2 < r then f + 1
         else if even f then f else f + 1)"

text \<open>
  Rounding to binary64: the significand has 53 digits, so the spacing of the values
  around \<open>m\<close> is \<open>2\<^sup>e\<^sup>-\<^sup>5\<^sup>2\<close>, with the exponent held at -1022 for the subnormal range; a
  rounded magnitude of \<open>2\<^sup>1\<^sup>0\<^sup>2\<^sup>4\<close> or more is an infinity.
\<close>

definition binary64 :: "rat \<Rightarrow> jsnum" where
  "binary64 x =
     (if x = 0 then Num 0
      else
        let m = \<bar>x\<bar>;
            e = max (exponentOf m) (- 1022);
            ulp = pow2 (e - 52);
            y = of_int (roundHalfEven (m / ulp)) * ulp
        in if pow2 1024 \<le> y then (if 0 < x then PosInf else NegInf)
           else Num (if 0 < x then y else - y))"

fun jsAdd :: "jsnum \<Rightarrow> jsnum \<Rightarrow> jsnum" where
  "jsAdd NaN b = NaN"
| "jsAdd a NaN = NaN"
| "jsAdd PosInf NegInf = NaN"
| "jsAdd NegInf PosInf = NaN"
| "jsAdd PosInf b = PosInf"
| "jsAdd a PosInf = PosInf"
| "jsAdd NegInf b = NegInf"
| "jsAdd a NegInf = NegInf"
| "jsAdd (Num x) (Num y) = binary64 (x + y)"

fun jsNeg :: "jsnum \<Rightarrow> jsnum" where
  "jsNeg (Num x) = Num (- x)"
| "jsNeg PosInf = NegInf"
| "jsNeg NegInf = PosInf"
| "jsNeg NaN = NaN"

definition jsSub :: "jsnum \<Rightarrow> jsnum \<Rightarrow> jsnum" where
  "jsSub a b = jsAdd a (jsNeg b)"

text \<open>Division; a finite value divided by zero is an infinity of the sign of the
  dividend, or \<open>NaN\<close> for zero by zero.\<close>

fun jsDiv :: "jsnum \<Rightarrow> jsnum \<Rightarrow> jsnum" where
  "jsDiv NaN b = NaN"
| "jsDiv a NaN = NaN"
| "jsDiv (Num x) (Num y) =
     (if y = 0 then (if x = 0 then NaN else if 0 < x then PosInf else NegInf)
      else binary64 (x / y))"
| "jsDiv (Num x) b = Num 0"
| "jsDiv a (Num y) =
     (if (a = PosInf) = (0 \<le> y) then PosInf else NegInf)"
| "jsDiv a b = NaN"

text \<open>The comparison \<open>a > 0\<close> (false for \<open>NaN\<close>) and the truthiness of a number
  (\<open>0\<close> and \<open>NaN\<close> are falsy).\<close>

fun jsPositive :: "jsnum \<Rightarrow> bool" where
  "jsPositive (Num x) = (0 < x)"
| "jsPositive PosInf = True"
| "jsPositive NegInf = False"
| "jsPositive NaN = False"

fun jsTruthy :: "jsnum \<Rightarrow> bool" where
  "jsTruthy (Num x) = (x \<noteq> 0)"
| "jsTruthy NaN = False"
| "jsTruthy a = True"

fun jsFinite :: "jsnum \<Rightarrow> bool" where
  "jsFinite (Num x) = True"
| "jsFinite a = False"

section \<open>Progress hierarchy (progress/manager.ts, progress/storage.ts)\<close>

text \<open>
  The manager reads a nested hierarchy from the entries of \<open>progressData.projects\<close>: a
  project holds its milestones, a milestone holds its tasks; a progress file that was
  loaded supplies such entries. Only the fields that the modelled methods read or write
  are kept (titles, descriptions, due dates and tags are never touched by them). Time
  stamps are ISO strings, an absent optional field is \<open>None\<close>. The storage itself puts
  into that array project objects that have no \<open>milestones\<close> property, its base
  entries; for them the field is \<open>None\<close>.
\<close>

datatype Status = NotStarted | InProgress | Completed | Blocked

datatype TaskPriority = Must | Enhance

record Task =
  taskId :: string
  status :: Status
  priority :: TaskPriority
  estimatedPoints :: jsnum
  actualPoints :: "jsnum option"
  startTime :: "string option"
  endTime :: "string option"

record Milestone =
  milestoneId :: string
  milestoneStatus :: Status
  completedDate :: "string option"
  tasks :: "Task list"

record Project =
  projectId :: string
  projectStatus :: Status
  updatedAt :: string
  milestones :: "Milestone list option"

record Statistics =
  totalTasks :: nat
  completedTasks :: nat
  totalPoints :: jsnum
  earnedPoints :: jsnum
  averagePointsPerHour :: jsnum

record ProgressData =
  projects :: "Project list"
  projectIds :: "string list"
  statistics :: Statistics

text \<open>The notifications that the manager publishes through the emitter, in order; their
  subscribers are taken to return normally and not to call the manager.\<close>

datatype ProgressEventType =
    TASK_STARTED | TASK_COMPLETED | TASK_UPDATED
  | MILESTONE_COMPLETED | MILESTONE_UPDATED
  | PROJECT_UPDATED | PROGRESS_UPDATED

text \<open>
  The state: the two fields of \<open>ProgressStorage\<close> that the manager's calls reach, the
  progress data (\<open>null\<close> until first used) and the project map, and the notifications
  published so far. The milestone and task maps are only ever cleared on these paths and
  are left out. An object is never both an entry of \<open>progressData.projects\<close> and a value
  of the project map, since \<open>addProject\<close> and \<open>updateProject\<close> put a copy into the
  array; so the two are kept as separate values.
\<close>

record ManagerState =
  progressData :: "ProgressData option"
  projectMap :: "string \<Rightarrow> Project option"
  emitted :: "ProgressEventType list"

text \<open>What the environment supplies: \<open>config.get("progress").pointsPerHour\<close>, the
  clock reading \<open>getCurrentISOString()\<close>, and \<open>new Date(s).getTime()\<close> (\<open>None\<close> for
  \<open>NaN\<close>).\<close>

record Runtime =
  pointsPerHour :: jsnum
  clock :: string
  parseDate :: "string \<Rightarrow> int option"

datatype ManagerError = TypeError

subsection \<open>ProgressStorage\<close>

definition createEmptyProgressData :: "jsnum \<Rightarrow> ProgressData" where
  "createEmptyProgressData seed =
     \<lparr> projects = [], projectIds = [],
       statistics = \<lparr> totalTasks = 0, completedTasks = 0, totalPoints = Num 0,
                      earnedPoints = Num 0, averagePointsPerHour = seed \<rparr> \<rparr>"

text \<open>
  \<open>initializeMaps\<close> clears the maps and then looks every project id up in the map it has
  just cleared, so it adds nothing: the maps end empty. \<open>setProgressData\<close> stores the
  data and runs it; \<open>getProgressData\<close> creates the empty data on first use.
\<close>

definition setProgressData :: "ProgressData \<Rightarrow> ManagerState \<Rightarrow> ManagerState" where
  "setProgressData pd s = s\<lparr>progressData := Some pd, projectMap := (\<lambda>k. None)\<rparr>"

definition getProgressData :: "Runtime \<Rightarrow> ManagerState \<Rightarrow> ProgressData \<times> ManagerState" where
  "getProgressData rt s =
     (case progressData s of
        Some pd \<Rightarrow> (pd, s)
      | None \<Rightarrow> (createEmptyProgressData (pointsPerHour rt),
                 setProgressData (createEmptyProgressData (pointsPerHour rt)) s))"

text \<open>
  \<open>updateProject\<close>: the project goes into the project map, and the first entry of
  \<open>progressData.projects\<close> with its id (\<open>findIndex\<close>) is overwritten by a new object made
  of the base fields of the project, which has no \<open>milestones\<close>. \<open>save\<close> writes the
  JSON file, catches what fails and changes nothing in memory; it is left out.
\<close>

fun replaceFirst :: "('a \<Rightarrow> bool) \<Rightarrow> 'a \<Rightarrow> 'a list \<Rightarrow> 'a list" where
  "replaceFirst P y [] = []"
| "replaceFirst P y (x # xs) = (if P x then y # xs else x # replaceFirst P y xs)"

definition projectBase :: "Project \<Rightarrow> Project" where
  "projectBase project = project\<lparr>milestones := None\<rparr>"

definition storage_updateProject :: "Project \<Rightarrow> ManagerState \<Rightarrow> ManagerState" where
  "storage_updateProject project s =
     (case progressData s of
        None \<Rightarrow> s
      | Some pd \<Rightarrow>
          s\<lparr>projectMap := (projectMap s)(projectId project \<mapsto> project),
            progressData := Some (pd\<lparr>projects :=
              replaceFirst (\<lambda>p. projectId p = projectId project) (projectBase project)
                (projects pd)\<rparr>)\<rparr>)"

subsection \<open>Objects found and mutated in place\<close>

text \<open>
  \<open>Array.prototype.find\<close> is \<^const>\<open>List.find\<close>: the first element that satisfies the
  predicate. The methods then assign to fields of the object found; in the model the first
  matching element of the list is replaced.
\<close>

fun updateFirst :: "('a \<Rightarrow> bool) \<Rightarrow> ('a \<Rightarrow> 'a) \<Rightarrow> 'a list \<Rightarrow> 'a list" where
  "updateFirst P f [] = []"
| "updateFirst P f (x # xs) = (if P x then f x # xs else x # updateFirst P f xs)"

definition findProject :: "string \<Rightarrow> ProgressData \<Rightarrow> Project option" where
  "findProject pid pd = List.find (\<lambda>p. projectId p = pid) (projects pd)"

definition findMilestone :: "string \<Rightarrow> Milestone list \<Rightarrow> Milestone option" where
  "findMilestone mid ms = List.find (\<lambda>m. milestoneId m = mid) ms"

definition findTask :: "string \<Rightarrow> Milestone \<Rightarrow> Task option" where
  "findTask tid m = List.find (\<lambda>t. taskId t = tid) (tasks m)"

definition modifyProject :: "string \<Rightarrow> (Project \<Rightarrow> Project) \<Rightarrow> ManagerState \<Rightarrow> ManagerState" where
  "modifyProject pid f s =
     s\<lparr>progressData :=
         map_option (\<lambda>pd. pd\<lparr>projects := updateFirst (\<lambda>p. projectId p = pid) f (projects pd)\<rparr>)
           (progressData s)\<rparr>"

definition inMilestone :: "string \<Rightarrow> (Milestone \<Rightarrow> Milestone) \<Rightarrow> Project \<Rightarrow> Project" where
  "inMilestone mid f p =
     p\<lparr>milestones := map_option (updateFirst (\<lambda>m. milestoneId m = mid) f) (milestones p)\<rparr>"

definition inTask :: "string \<Rightarrow> (Task \<Rightarrow> Task) \<Rightarrow> Milestone \<Rightarrow> Milestone" where
  "inTask tid f m = m\<lparr>tasks := updateFirst (\<lambda>t. taskId t = tid) f (tasks m)\<rparr>"

definition emit_progress :: "ProgressEventType \<Rightarrow> ManagerState \<Rightarrow> ManagerState" where
  "emit_progress e s = s\<lparr>emitted := emitted s @ [e]\<rparr>"

subsection \<open>Status cascade\<close>

text \<open>
  The branch chain of \<open>updateMilestoneStatus\<close> over the tasks of the milestone, after
  the early return for an empty task list, and the same chain of \<open>updateProjectStatus\<close>
  over the milestones.
\<close>

definition milestoneStatusOf :: "Task list \<Rightarrow> Status" where
  "milestoneStatusOf ts =
     (if length ts = 0 then NotStarted
      else if list_all (\<lambda>t. status t = Completed) ts then Completed
      else if list_ex (\<lambda>t. status t = InProgress) ts then InProgress
      else if list_ex (\<lambda>t. status t = Blocked) ts then Blocked
      else NotStarted)"

definition projectStatusOf :: "Milestone list \<Rightarrow> Status" where
  "projectStatusOf ms =
     (if length ms = 0 then NotStarted
      else if list_all (\<lambda>m. milestoneStatus m = Completed) ms then Completed
      else if list_ex (\<lambda>m. milestoneStatus m = InProgress) ms then InProgress
      else if list_ex (\<lambda>m. milestoneStatus m = Blocked) ms then Blocked
      else NotStarted)"

text \<open>
  \<open>updateProjectStatus\<close>. Reading \<open>project.milestones.length\<close> of a project without
  \<open>milestones\<close> throws a \<open>TypeError\<close>. With no milestones the status is reset and the
  method returns at once: nothing is stored, stamped or published. Otherwise the status
  and the time stamp are assigned, the project is handed to \<open>storage.updateProject\<close>,
  and the update is published.
\<close>

definition updateProjectStatus ::
  "Runtime \<Rightarrow> string \<Rightarrow> ManagerState \<Rightarrow> (ManagerError + Project option) \<times> ManagerState" where
  "updateProjectStatus rt pid s =
     (case getProgressData rt s of (pd, s0) \<Rightarrow>
        (case findProject pid pd of
           None \<Rightarrow> (Inr None, s0)
         | Some project \<Rightarrow>
             (case milestones project of
                None \<Rightarrow> (Inl TypeError, s0)
              | Some ms \<Rightarrow>
                  if length ms = 0 then
                    (Inr (Some (project\<lparr>projectStatus := NotStarted\<rparr>)),
                     modifyProject pid (\<lambda>p. p\<lparr>projectStatus := NotStarted\<rparr>) s0)
                  else
                    let project' = project\<lparr>projectStatus := projectStatusOf ms,
                                           updatedAt := clock rt\<rparr>;
                        s1 = modifyProject pid (\<lambda>p. project') s0;
                        s2 = storage_updateProject project' s1;
                        s3 = emit_progress PROJECT_UPDATED s2
                    in (Inr (Some project'), s3))))"

text \<open>
  \<open>updateMilestoneStatus\<close>. Reading \<open>project.milestones.find\<close> of a project without
  \<open>milestones\<close> throws. The empty milestone returns before anything is stored; a
  completed milestone is stamped and announced; every other path hands the project to
  \<open>storage.updateProject\<close>, publishes the update and ends in \<open>updateProjectStatus\<close>,
  whose exception passes through.
\<close>

definition updateMilestoneStatus ::
  "Runtime \<Rightarrow> string \<Rightarrow> string \<Rightarrow> ManagerState \<Rightarrow> (ManagerError + Milestone option) \<times> ManagerState" where
  "updateMilestoneStatus rt pid mid s =
     (case getProgressData rt s of (pd, s0) \<Rightarrow>
        (case findProject pid pd of
           None \<Rightarrow> (Inr None, s0)
         | Some project \<Rightarrow>
             (case milestones project of
                None \<Rightarrow> (Inl TypeError, s0)
              | Some ms \<Rightarrow>
                  (case findMilestone mid ms of
                     None \<Rightarrow> (Inr None, s0)
                   | Some milestone \<Rightarrow>
                       if length (tasks milestone) = 0 then
                         (Inr (Some (milestone\<lparr>milestoneStatus := NotStarted\<rparr>)),
                          modifyProject pid
                            (inMilestone mid (\<lambda>m. m\<lparr>milestoneStatus := NotStarted\<rparr>)) s0)
                       else
                         let st = milestoneStatusOf (tasks milestone);
                             milestone' =
                               (if st = Completed
                                then milestone\<lparr>milestoneStatus := st,
                                                completedDate := Some (clock rt)\<rparr>
                                else milestone\<lparr>milestoneStatus := st\<rparr>);
                             project' = inMilestone mid (\<lambda>m. milestone') project;
                             s1 = modifyProject pid (\<lambda>p. project') s0;
                             s2 = (if st = Completed
                                   then emit_progress MILESTONE_COMPLETED s1 else s1);
                             s3 = storage_updateProject project' s2;
                             s4 = emit_progress MILESTONE_UPDATED s3
                         in (case updateProjectStatus rt pid s4 of
                               (Inl e, s5) \<Rightarrow> (Inl e, s5)
                             | (Inr p, s5) \<Rightarrow> (Inr (Some milestone'), s5))))))"

subsection \<open>Task status\<close>

text \<open>
  \<open>updateTaskStatus\<close>: the requested status is written to the task found, the start
  time is stamped on the step from NotStarted to InProgress, the end time and the actual
  points on every step to Completed; the project is stamped and handed to
  \<open>storage.updateProject\<close>, the change is published, and the cascade runs, whose
  exception passes through.
\<close>

definition stampTask :: "string \<Rightarrow> Status \<Rightarrow> Task \<Rightarrow> Task" where
  "stampTask now st task =
     (let oldStatus = status task;
          t1 = task\<lparr>status := st\<rparr>;
          t2 = (if oldStatus = NotStarted \<and> st = InProgress
                then t1\<lparr>startTime := Some now\<rparr> else t1);
          t3 = (if st = Completed
                then t2\<lparr>endTime := Some now, actualPoints := Some (estimatedPoints t2)\<rparr>
                else t2)
      in t3)"

definition updateTaskStatus ::
  "Runtime \<Rightarrow> string \<Rightarrow> string \<Rightarrow> string \<Rightarrow> Status \<Rightarrow> ManagerState
     \<Rightarrow> (ManagerError + Task option) \<times> ManagerState" where
  "updateTaskStatus rt pid mid tid st s =
     (case getProgressData rt s of (pd, s0) \<Rightarrow>
        (case findProject pid pd of
           None \<Rightarrow> (Inr None, s0)
         | Some project \<Rightarrow>
             (case milestones project of
                None \<Rightarrow> (Inl TypeError, s0)
              | Some ms \<Rightarrow>
                  (case findMilestone mid ms of
                     None \<Rightarrow> (Inr None, s0)
                   | Some milestone \<Rightarrow>
                       (case findTask tid milestone of
                          None \<Rightarrow> (Inr None, s0)
                        | Some task \<Rightarrow>
                            let task' = stampTask (clock rt) st task;
                                project' = (inMilestone mid (inTask tid (\<lambda>t. task')) project)
                                             \<lparr>updatedAt := clock rt\<rparr>;
                                s1 = modifyProject pid (\<lambda>p. project') s0;
                                s2 = storage_updateProject project' s1;
                                s3 = emit_progress
                                       (if st = InProgress then TASK_STARTED
                                        else if st = Completed then TASK_COMPLETED
                                        else TASK_UPDATED) s2
                            in (case updateMilestoneStatus rt pid mid s3 of
                                  (Inl e, s4) \<Rightarrow> (Inl e, s4)
                                | (Inr m, s4) \<Rightarrow> (Inr (Some task'), s4)))))))"

text \<open>The task of a project under a milestone id and a task id, by the same searches.\<close>

definition taskIn :: "string \<Rightarrow> string \<Rightarrow> Project \<Rightarrow> Task option" where
  "taskIn mid tid project =
     (case milestones project of
        None \<Rightarrow> None
      | Some ms \<Rightarrow> (case findMilestone mid ms of
                      None \<Rightarrow> None
                    | Some milestone \<Rightarrow> findTask tid milestone))"

definition milestoneIn :: "string \<Rightarrow> Project \<Rightarrow> Milestone option" where
  "milestoneIn mid project =
     (case milestones project of None \<Rightarrow> None | Some ms \<Rightarrow> findMilestone mid ms)"

subsection \<open>Statistics\<close>

text \<open>
  \<open>actualPoints || estimatedPoints\<close> on an optional number: \<open>undefined\<close>, \<open>0\<close> and
  \<open>NaN\<close> are falsy, so each of them selects the right operand.
\<close>

definition jsOr :: "jsnum option \<Rightarrow> jsnum \<Rightarrow> jsnum" where
  "jsOr a b = (case a of None \<Rightarrow> b | Some x \<Rightarrow> if jsTruthy x then x else b)"

text \<open>The four counters of the first loop nest of \<open>updateStatistics\<close>.\<close>

record Tally =
  tallyTasks :: nat
  tallyCompleted :: nat
  tallyPoints :: jsnum
  tallyEarned :: jsnum

definition tallyTask :: "Task \<Rightarrow> Tally \<Rightarrow> Tally" where
  "tallyTask task c =
     (let c1 = c\<lparr>tallyTasks := tallyTasks c + 1,
                 tallyPoints := jsAdd (tallyPoints c) (estimatedPoints task)\<rparr>
      in if status task = Completed
         then c1\<lparr>tallyCompleted := tallyCompleted c1 + 1,
                 tallyEarned := jsAdd (tallyEarned c1)
                                  (jsOr (actualPoints task) (estimatedPoints task))\<rparr>
         else c1)"

text \<open>The milestones that \<open>for (const milestone of project.milestones)\<close> visits, for a
  project that has them.\<close>

definition milestonesOf :: "Project \<Rightarrow> Milestone list" where
  "milestonesOf project = (case milestones project of None \<Rightarrow> [] | Some ms \<Rightarrow> ms)"

definition tally :: "ProgressData \<Rightarrow> Tally" where
  "tally pd =
     fold (\<lambda>project. fold (\<lambda>milestone. fold tallyTask (tasks milestone)) (milestonesOf project))
       (projects pd)
       \<lparr>tallyTasks = 0, tallyCompleted = 0, tallyPoints = Num 0, tallyEarned = Num 0\<rparr>"

text \<open>
  The second loop nest. A time stamp is truthy when it is present and not empty; the
  milliseconds of a date are an integer, or \<open>NaN\<close> for a string that is no date.
\<close>

definition dateNum :: "(string \<Rightarrow> int option) \<Rightarrow> string \<Rightarrow> jsnum" where
  "dateNum parse s = (case parse s of None \<Rightarrow> NaN | Some ms \<Rightarrow> Num (rat_of_int ms))"

definition addHours :: "(string \<Rightarrow> int option) \<Rightarrow> Task \<Rightarrow> jsnum \<Rightarrow> jsnum" where
  "addHours parse task totalHours =
     (case (startTime task, endTime task) of
        (Some st, Some en) \<Rightarrow>
          if status task = Completed \<and> st \<noteq> [] \<and> en \<noteq> [] then
            jsAdd totalHours
              (jsDiv (jsSub (dateNum parse en) (dateNum parse st)) (Num (1000 * 60 * 60)))
          else totalHours
      | _ \<Rightarrow> totalHours)"

definition totalHoursOf :: "(string \<Rightarrow> int option) \<Rightarrow> ProgressData \<Rightarrow> jsnum" where
  "totalHoursOf parse pd =
     fold (\<lambda>project. fold (\<lambda>milestone. fold (addHours parse) (tasks milestone))
                        (milestonesOf project))
       (projects pd) (Num 0)"

text \<open>
  \<open>updateStatistics\<close>. Iterating \<open>project.milestones\<close> of a project without
  \<open>milestones\<close> throws a \<open>TypeError\<close>; this happens in the first loop nest, which has
  assigned local variables only. Otherwise the counters are stored, the average is
  assigned only under both guards, the data goes through \<open>setProgressData\<close>, and the
  update is published.
\<close>

definition updateStatistics :: "Runtime \<Rightarrow> ManagerState \<Rightarrow> (ManagerError + unit) \<times> ManagerState" where
  "updateStatistics rt s =
     (case getProgressData rt s of (pd, s0) \<Rightarrow>
        if list_ex (\<lambda>project. milestones project = None) (projects pd) then (Inl TypeError, s0)
        else
          let c = tally pd;
              st1 = (statistics pd)\<lparr>totalTasks := tallyTasks c, completedTasks := tallyCompleted c,
                                     totalPoints := tallyPoints c, earnedPoints := tallyEarned c\<rparr>;
              totalHours = totalHoursOf (parseDate rt) pd;
              st2 = (if tallyCompleted c > 0 \<and> jsPositive totalHours
                     then st1\<lparr>averagePointsPerHour := jsDiv (tallyEarned c) totalHours\<rparr>
                     else st1)
          in (Inr (), emit_progress PROGRESS_UPDATED (setProgressData (pd\<lparr>statistics := st2\<rparr>) s0)))"

subsection \<open>The rules as the specification words them\<close>

text \<open>
  The precedence rule of the specification over the statuses of the children: Completed
  with at least one child and all children Completed, else InProgress if any child is,
  else Blocked if any child is, else NotStarted.
\<close>

definition precedenceRule :: "Status list \<Rightarrow> Status" where
  "precedenceRule children =
     (if children \<noteq> [] \<and> list_all (\<lambda>c. c = Completed) children then Completed
      else if InProgress \<in> set children then InProgress
      else if Blocked \<in> set children then Blocked
      else NotStarted)"

text \<open>All tasks in the order in which the three nested loops visit them.\<close>

definition allTasks :: "ProgressData \<Rightarrow> Task list" where
  "allTasks pd = concat (map (\<lambda>p. concat (map tasks (milestonesOf p))) (projects pd))"

text \<open>A completed task that carries both time stamps, as the duration loop tests it, its
  duration in hours, and the sum of the durations of these tasks in the order of the
  loops.\<close>

definition timed :: "Task \<Rightarrow> bool" where
  "timed t = (status t = Completed
              \<and> (case startTime t of None \<Rightarrow> False | Some s \<Rightarrow> s \<noteq> [])
              \<and> (case endTime t of None \<Rightarrow> False | Some s \<Rightarrow> s \<noteq> []))"

definition durationHours :: "(string \<Rightarrow> int option) \<Rightarrow> Task \<Rightarrow> jsnum" where
  "durationHours parse t =
     (case (startTime t, endTime t) of
        (Some st, Some en) \<Rightarrow>
          jsDiv (jsSub (dateNum parse en) (dateNum parse st)) (Num (1000 * 60 * 60))
      | _ \<Rightarrow> NaN)"

definition summedDuration :: "(string \<Rightarrow> int option) \<Rightarrow> ProgressData \<Rightarrow> jsnum" where
  "summedDuration parse pd =
     foldl jsAdd (Num 0) (map (durationHours parse) (filter timed (allTasks pd)))"

definition completedCount :: "ProgressData \<Rightarrow> nat" where
  "completedCount pd = length (filter (\<lambda>t. status t = Completed) (allTasks pd))"

section \<open>Event log (progress/events/file_store.ts, memory_store.ts)\<close>

text \<open>
  An event as \<open>createEvent\<close> builds it. The type is the string of the \<open>EventType\<close>
  enumeration. The payload keeps the identifiers that the stores inspect: the three id
  fields, the id inside a nested \<open>project\<close>, \<open>milestone\<close> or \<open>task\<close> object, and the
  target of a dependency edge.
\<close>

record Payload =
  payloadProjectId :: "string option"
  payloadMilestoneId :: "string option"
  payloadTaskId :: "string option"
  payloadProject :: "string option"
  payloadMilestone :: "string option"
  payloadTask :: "string option"
  dependsOnTaskId :: "string option"

record Event =
  eventId :: string
  eventType :: string
  timestamp :: string
  version :: nat
  payload :: "Payload option"

definition TASK_DEPENDENCY_ADDED :: string where
  "TASK_DEPENDENCY_ADDED = ''task_dependency_added''"

definition emptyPayload :: Payload where
  "emptyPayload = \<lparr> payloadProjectId = None, payloadMilestoneId = None, payloadTaskId = None,
                    payloadProject = None, payloadMilestone = None, payloadTask = None,
                    dependsOnTaskId = None \<rparr>"

text \<open>\<open>createEvent\<close>; \<open>uuid\<close> is \<open>crypto.randomUUID()\<close> and \<open>now\<close> the clock reading.\<close>

definition createEvent :: "string \<Rightarrow> string \<Rightarrow> string \<Rightarrow> Payload \<Rightarrow> Event" where
  "createEvent uuid now ty pl =
     \<lparr> eventId = uuid, eventType = ty, timestamp = now, version = 1, payload = Some pl \<rparr>"

definition createTaskDependencyAddedEvent :: "string \<Rightarrow> string \<Rightarrow> string \<Rightarrow> string \<Rightarrow> Event" where
  "createTaskDependencyAddedEvent uuid now tid dependsOn =
     createEvent uuid now TASK_DEPENDENCY_ADDED
       (emptyPayload\<lparr>payloadTaskId := Some tid, dependsOnTaskId := Some dependsOn\<rparr>)"

subsection \<open>Platform and disk\<close>

text \<open>
  The platform functions are parameters: \<open>JSON.stringify\<close>, \<open>JSON.parse\<close> (\<open>None\<close> when it
  throws) and \<open>new Date(s).getTime()\<close> (\<open>None\<close> for \<open>NaN\<close>). The disk holds the storage
  directory and the file \<open>events.jsonl\<close>; \<open>fails\<close> tells which Deno call throws, for
  a reason other than the absence that the code tests for. \<open>console.error\<close> calls are
  collected as reports.
\<close>

record Platform =
  jsonStringify :: "Event \<Rightarrow> string"
  jsonParse :: "string \<Rightarrow> Event option"
  getTime :: "string \<Rightarrow> int option"

datatype Op = StatDir | Mkdir | StatFile | ReadFile | AppendFile

datatype StoreError = IOError Op

datatype Report = InitFailed | LoadFailed | SaveFailed

record Disk =
  dirExists :: bool
  fileContent :: "string option"
  fails :: "Op \<Rightarrow> bool"

record FileEventStore =
  events :: "Event list"
  initialized :: bool

record World =
  store :: FileEventStore
  disk :: Disk
  console :: "Report list"

definition newFileEventStore :: FileEventStore where
  "newFileEventStore = \<lparr> events = [], initialized = False \<rparr>"

definition report :: "Report \<Rightarrow> World \<Rightarrow> World" where
  "report r w = w\<lparr>console := console w @ [r]\<rparr>"

definition setEvents :: "Event list \<Rightarrow> World \<Rightarrow> World" where
  "setEvents es w = w\<lparr>store := (store w)\<lparr>events := es\<rparr>\<rparr>"

subsection \<open>Strings\<close>

text \<open>
  A string is the list of the bytes of its UTF-8 encoding, which is what the file holds.
  \<open>trim\<close> removes white space and line terminators at both ends: the characters U+0009
  to U+000D, U+0020, U+00A0, U+1680, U+2000 to U+200A, U+2028, U+2029, U+202F, U+205F,
  U+3000 and U+FEFF, listed here by their encodings. \<open>split("\n")\<close> cuts at every line
  feed and yields one empty piece for the empty string.
\<close>

definition whiteSpace :: "string list" where
  "whiteSpace =
     [[CHR 0x09], [CHR 0x0A], [CHR 0x0B], [CHR 0x0C], [CHR 0x0D], [CHR 0x20],
      [CHR 0xC2, CHR 0xA0],
      [CHR 0xE1, CHR 0x9A, CHR 0x80],
      [CHR 0xE2, CHR 0x80, CHR 0x80], [CHR 0xE2, CHR 0x80, CHR 0x81],
      [CHR 0xE2, CHR 0x80, CHR 0x82], [CHR 0xE2, CHR 0x80, CHR 0x83],
      [CHR 0xE2, CHR 0x80, CHR 0x84], [CHR 0xE2, CHR 0x80, CHR 0x85],
      [CHR 0xE2, CHR 0x80, CHR 0x86], [CHR 0xE2, CHR 0x80, CHR 0x87],
      [CHR 0xE2, CHR 0x80, CHR 0x88], [CHR 0xE2, CHR 0x80, CHR 0x89],
      [CHR 0xE2, CHR 0x80, CHR 0x8A],
      [CHR 0xE2, CHR 0x80, CHR 0xA8], [CHR 0xE2, CHR 0x80, CHR 0xA9],
      [CHR 0xE2, CHR 0x80, CHR 0xAF],
      [CHR 0xE2, CHR 0x81, CHR 0x9F],
      [CHR 0xE3, CHR 0x80, CHR 0x80],
      [CHR 0xEF, CHR 0xBB, CHR 0xBF]]"

fun startsWith :: "'a list \<Rightarrow> 'a list \<Rightarrow> bool" where
  "startsWith [] s = True"
| "startsWith (c # cs) [] = False"
| "startsWith (c # cs) (d # ds) = (c = d \<and> startsWith cs ds)"

text \<open>One step: the string without the first of the given pieces that it starts with.\<close>

definition stripOne :: "'a list list \<Rightarrow> 'a list \<Rightarrow> 'a list option" where
  "stripOne pieces s =
     (case List.find (\<lambda>p. p \<noteq> [] \<and> startsWith p s) pieces of
        None \<Rightarrow> None
      | Some p \<Rightarrow> Some (drop (length p) s))"

text \<open>Stripping as long as a piece is found; each step shortens the string, so at most
  as many steps as the string is long are taken.\<close>

fun stripAll :: "nat \<Rightarrow> 'a list list \<Rightarrow> 'a list \<Rightarrow> 'a list" where
  "stripAll 0 pieces s = s"
| "stripAll (Suc n) pieces s =
     (case stripOne pieces s of None \<Rightarrow> s | Some rest \<Rightarrow> stripAll n pieces rest)"

definition trimStart :: "string \<Rightarrow> string" where
  "trimStart s = stripAll (length s) whiteSpace s"

definition trimEnd :: "string \<Rightarrow> string" where
  "trimEnd s = rev (stripAll (length s) (map rev whiteSpace) (rev s))"

definition trim :: "string \<Rightarrow> string" where
  "trim s = trimEnd (trimStart s)"

fun splitLines :: "string \<Rightarrow> string list" where
  "splitLines [] = [[]]"
| "splitLines (c # cs) =
     (if c = CHR 0x0A then [] # splitLines cs
      else (case splitLines cs of [] \<Rightarrow> [[c]] | l # ls \<Rightarrow> (c # l) # ls))"

subsection \<open>FileEventStore\<close>

text \<open>\<open>Array.prototype.map\<close> with \<open>JSON.parse\<close>: the first line that throws ends the
  whole map.\<close>

fun parseAll :: "(string \<Rightarrow> Event option) \<Rightarrow> string list \<Rightarrow> Event list option" where
  "parseAll parse [] = Some []"
| "parseAll parse (l # ls) =
     (case parse l of
        None \<Rightarrow> None
      | Some e \<Rightarrow> (case parseAll parse ls of None \<Rightarrow> None | Some es \<Rightarrow> Some (e # es)))"

text \<open>\<open>loadEvents\<close>: everything thrown inside the \<open>try\<close> is caught, reported, and the
  in-memory list is set to the empty list.\<close>

definition loadEvents :: "Platform \<Rightarrow> World \<Rightarrow> World" where
  "loadEvents pf w =
     (if fails (disk w) ReadFile then setEvents [] (report LoadFailed w)
      else
        (case fileContent (disk w) of
           None \<Rightarrow> setEvents [] (report LoadFailed w)
         | Some content \<Rightarrow>
             let lines = splitLines (trim content)
             in (case parseAll (jsonParse pf) (filter (\<lambda>line. trim line \<noteq> []) lines) of
                   None \<Rightarrow> setEvents [] (report LoadFailed w)
                 | Some es \<Rightarrow> setEvents es w)))"

definition ensureDir :: "World \<Rightarrow> (StoreError + unit) \<times> World" where
  "ensureDir w =
     (if fails (disk w) StatDir then (Inl (IOError StatDir), w)
      else if dirExists (disk w) then (Inr (), w)
      else if fails (disk w) Mkdir then (Inl (IOError Mkdir), w)
      else (Inr (), w\<lparr>disk := (disk w)\<lparr>dirExists := True\<rparr>\<rparr>))"

definition initialize :: "Platform \<Rightarrow> World \<Rightarrow> (StoreError + unit) \<times> World" where
  "initialize pf w =
     (if initialized (store w) then (Inr (), w)
      else
        (case ensureDir w of
           (Inl e, w1) \<Rightarrow> (Inl e, report InitFailed w1)
         | (Inr u, w1) \<Rightarrow>
             if fails (disk w1) StatFile then (Inl (IOError StatFile), report InitFailed w1)
             else
               let w2 = (case fileContent (disk w1) of
                           None \<Rightarrow> setEvents [] w1
                         | Some content \<Rightarrow> loadEvents pf w1)
               in (Inr (), w2\<lparr>store := (store w2)\<lparr>initialized := True\<rparr>\<rparr>)))"

definition appendText :: "string \<Rightarrow> World \<Rightarrow> (StoreError + unit) \<times> World" where
  "appendText txt w =
     (if fails (disk w) AppendFile then (Inl (IOError AppendFile), report SaveFailed w)
      else (Inr (), w\<lparr>disk := (disk w)
              \<lparr>fileContent := Some ((case fileContent (disk w) of None \<Rightarrow> [] | Some c \<Rightarrow> c) @ txt)\<rparr>\<rparr>))"

definition appendEventToFile :: "Platform \<Rightarrow> Event \<Rightarrow> World \<Rightarrow> (StoreError + unit) \<times> World" where
  "appendEventToFile pf event w = appendText (jsonStringify pf event @ [CHR 0x0A]) w"

text \<open>\<open>Array.prototype.join("\n")\<close>.\<close>

fun joinLines :: "string list \<Rightarrow> string" where
  "joinLines [] = []"
| "joinLines [l] = l"
| "joinLines (l # ls) = l @ [CHR 0x0A] @ joinLines ls"

definition appendEventsToFile :: "Platform \<Rightarrow> Event list \<Rightarrow> World \<Rightarrow> (StoreError + unit) \<times> World" where
  "appendEventsToFile pf es w =
     appendText (joinLines (map (jsonStringify pf) es) @ [CHR 0x0A]) w"

text \<open>\<open>saveEvent\<close> and \<open>saveEvents\<close>: initialise, push to the in-memory list, then append
  to the file.\<close>

definition saveEvent :: "Platform \<Rightarrow> Event \<Rightarrow> World \<Rightarrow> (StoreError + Event) \<times> World" where
  "saveEvent pf event w =
     (case initialize pf w of
        (Inl e, w1) \<Rightarrow> (Inl e, w1)
      | (Inr u, w1) \<Rightarrow>
          let w2 = setEvents (events (store w1) @ [event]) w1
          in (case appendEventToFile pf event w2 of
                (Inl e, w3) \<Rightarrow> (Inl e, w3)
              | (Inr u, w3) \<Rightarrow> (Inr event, w3)))"

definition saveEvents :: "Platform \<Rightarrow> Event list \<Rightarrow> World \<Rightarrow> (StoreError + Event list) \<times> World" where
  "saveEvents pf es w =
     (case initialize pf w of
        (Inl e, w1) \<Rightarrow> (Inl e, w1)
      | (Inr u, w1) \<Rightarrow>
          let w2 = setEvents (events (store w1) @ es) w1
          in (case appendEventsToFile pf es w2 of
                (Inl e, w3) \<Rightarrow> (Inl e, w3)
              | (Inr u, w3) \<Rightarrow> (Inr es, w3)))"

subsection \<open>Reads\<close>

text \<open>The selections that the reads of both stores compute on the in-memory list.\<close>

definition concernsEntity :: "string \<Rightarrow> Event \<Rightarrow> bool" where
  "concernsEntity entityId event =
     (case payload event of
        None \<Rightarrow> False
      | Some pl \<Rightarrow>
          if payloadProjectId pl = Some entityId then True
          else if payloadMilestoneId pl = Some entityId then True
          else if payloadTaskId pl = Some entityId then True
          else if payloadProject pl = Some entityId then True
          else if payloadMilestone pl = Some entityId then True
          else if payloadTask pl = Some entityId then True
          else False)"

definition inTimeRange :: "(string \<Rightarrow> int option) \<Rightarrow> string \<Rightarrow> string \<Rightarrow> Event \<Rightarrow> bool" where
  "inTimeRange gt startTm endTm event =
     (case (gt (timestamp event), gt startTm, gt endTm) of
        (Some eventTime, Some start, Some end) \<Rightarrow> eventTime \<ge> start \<and> eventTime \<le> end
      | _ \<Rightarrow> False)"

definition withInit :: "Platform \<Rightarrow> (Event list \<Rightarrow> 'a) \<Rightarrow> World \<Rightarrow> (StoreError + 'a) \<times> World" where
  "withInit pf read w =
     (case initialize pf w of
        (Inl e, w1) \<Rightarrow> (Inl e, w1)
      | (Inr u, w1) \<Rightarrow> (Inr (read (events (store w1))), w1))"

definition getAllEvents :: "Platform \<Rightarrow> World \<Rightarrow> (StoreError + Event list) \<times> World" where
  "getAllEvents pf = withInit pf (\<lambda>es. es)"

definition getEventById :: "Platform \<Rightarrow> string \<Rightarrow> World \<Rightarrow> (StoreError + Event option) \<times> World" where
  "getEventById pf eid = withInit pf (List.find (\<lambda>e. eventId e = eid))"

definition getEventsByEntityId :: "Platform \<Rightarrow> string \<Rightarrow> World \<Rightarrow> (StoreError + Event list) \<times> World" where
  "getEventsByEntityId pf entityId = withInit pf (filter (concernsEntity entityId))"

definition getEventsByTimeRange ::
  "Platform \<Rightarrow> string \<Rightarrow> string \<Rightarrow> World \<Rightarrow> (StoreError + Event list) \<times> World" where
  "getEventsByTimeRange pf startTm endTm =
     withInit pf (filter (inTimeRange (getTime pf) startTm endTm))"

definition getEventsByType :: "Platform \<Rightarrow> string \<Rightarrow> World \<Rightarrow> (StoreError + Event list) \<times> World" where
  "getEventsByType pf ty = withInit pf (filter (\<lambda>e. eventType e = ty))"

subsection \<open>InMemoryEventStore\<close>

text \<open>The store of memory\_store.ts is its event array; nothing can fail.\<close>

type_synonym InMemoryEventStore = "Event list"

definition mem_saveEvent :: "Event \<Rightarrow> InMemoryEventStore \<Rightarrow> Event \<times> InMemoryEventStore" where
  "mem_saveEvent event es = (event, es @ [event])"

definition mem_saveEvents :: "Event list \<Rightarrow> InMemoryEventStore \<Rightarrow> Event list \<times> InMemoryEventStore" where
  "mem_saveEvents new es = (new, es @ new)"

definition mem_getAllEvents :: "InMemoryEventStore \<Rightarrow> Event list" where
  "mem_getAllEvents es = es"

subsection \<open>Dependency graph of a log\<close>

text \<open>
  The specification's task dependency graph of a log: one edge from \<open>taskId\<close> to
  \<open>dependsOnTaskId\<close> for every dependency-added event. A new edge closes a cycle when
  its source can be reached from its target; a path needs at most as many steps as there
  are edges.
\<close>

definition edgeOf :: "Event \<Rightarrow> (string \<times> string) option" where
  "edgeOf e =
     (if eventType e = TASK_DEPENDENCY_ADDED then
        (case payload e of
           None \<Rightarrow> None
         | Some pl \<Rightarrow> (case (payloadTaskId pl, dependsOnTaskId pl) of
                         (Some a, Some b) \<Rightarrow> Some (a, b)
                       | _ \<Rightarrow> None))
      else None)"

definition dependencyEdges :: "Event list \<Rightarrow> (string \<times> string) list" where
  "dependencyEdges es = List.map_filter edgeOf es"

fun reaches :: "(string \<times> string) list \<Rightarrow> nat \<Rightarrow> string \<Rightarrow> string \<Rightarrow> bool" where
  "reaches edges 0 x y = (x = y)"
| "reaches edges (Suc n) x y =
     (x = y \<or> list_ex (\<lambda>edge. fst edge = x \<and> reaches edges n (snd edge) y) edges)"

definition closesCycle :: "(string \<times> string) list \<Rightarrow> string \<times> string \<Rightarrow> bool" where
  "closesCycle edges new = reaches edges (length edges) (snd new) (fst new)"

subsection \<open>Object identity in the reads\<close>

text \<open>
  Whether a caller can reach the store's own data through a result depends on which
  objects are shared. Here event objects and arrays live in a heap, the store's field
  \<open>this.events\<close> is the address of an array of event addresses, and the store is taken as
  initialised. The spread \<open>[...this.events]\<close> and \<open>filter\<close> allocate a new array holding
  the same element addresses; \<open>find\<close> hands back the address of the element itself.
\<close>

type_synonym addr = nat

record Heap =
  objects :: "addr \<Rightarrow> Event option"
  arrays :: "addr \<Rightarrow> addr list option"
  nextAddr :: addr
  eventsArray :: addr

definition arrayElems :: "Heap \<Rightarrow> addr \<Rightarrow> addr list" where
  "arrayElems h a = (case arrays h a of None \<Rightarrow> [] | Some rs \<Rightarrow> rs)"

definition elems :: "Heap \<Rightarrow> addr list" where
  "elems h = arrayElems h (eventsArray h)"

definition holds :: "Heap \<Rightarrow> (Event \<Rightarrow> bool) \<Rightarrow> addr \<Rightarrow> bool" where
  "holds h P r = (case objects h r of None \<Rightarrow> False | Some e \<Rightarrow> P e)"

definition allocArray :: "addr list \<Rightarrow> Heap \<Rightarrow> addr \<times> Heap" where
  "allocArray rs h =
     (nextAddr h, h\<lparr>arrays := (arrays h)(nextAddr h \<mapsto> rs), nextAddr := Suc (nextAddr h)\<rparr>)"

definition obj_getAllEvents :: "Heap \<Rightarrow> addr \<times> Heap" where
  "obj_getAllEvents h = allocArray (elems h) h"

definition obj_getEventById :: "string \<Rightarrow> Heap \<Rightarrow> addr option" where
  "obj_getEventById eid h = List.find (holds h (\<lambda>e. eventId e = eid)) (elems h)"

definition obj_getEventsByEntityId :: "string \<Rightarrow> Heap \<Rightarrow> addr \<times> Heap" where
  "obj_getEventsByEntityId entityId h =
     allocArray (filter (holds h (concernsEntity entityId)) (elems h)) h"

definition obj_getEventsByTimeRange ::
  "(string \<Rightarrow> int option) \<Rightarrow> string \<Rightarrow> string \<Rightarrow> Heap \<Rightarrow> addr \<times> Heap" where
  "obj_getEventsByTimeRange gt startTm endTm h =
     allocArray (filter (holds h (inTimeRange gt startTm endTm)) (elems h)) h"

definition obj_getEventsByType :: "string \<Rightarrow> Heap \<Rightarrow> addr \<times> Heap" where
  "obj_getEventsByType ty h =
     allocArray (filter (holds h (\<lambda>e. eventType e = ty)) (elems h)) h"

text \<open>
  What a caller can do with a result: give the array at an address other elements (push,
  splice, index assignment), or assign to fields of the event object at an address.
\<close>

definition arrayWrite :: "addr \<Rightarrow> addr list \<Rightarrow> Heap \<Rightarrow> Heap" where
  "arrayWrite a rs h = h\<lparr>arrays := (arrays h)(a \<mapsto> rs)\<rparr>"

definition objectWrite :: "addr \<Rightarrow> Event \<Rightarrow> Heap \<Rightarrow> Heap" where
  "objectWrite r e h = h\<lparr>objects := (objects h)(r \<mapsto> e)\<rparr>"

text \<open>The events that an array of addresses stands for, and the store's list read that
  way: the value that \<open>getAllEvents\<close> reports.\<close>

definition deref :: "Heap \<Rightarrow> addr list \<Rightarrow> Event list" where
  "deref h rs = List.map_filter (objects h) rs"

definition storeView :: "Heap \<Rightarrow> Event list" where
  "storeView h = deref h (elems h)"

definition arrayView :: "Heap \<Rightarrow> addr \<Rightarrow> Event list" where
  "arrayView h a = deref h (arrayElems h a)"

section \<open>EventEmitter (core/events.ts)\<close>

text \<open>
  The handler table maps an event name to the array of its handlers. Handlers are values
  of a type \<open>'h\<close> whose equality is the identity of the function objects.
\<close>

type_synonym 'h Handlers = "string \<Rightarrow> 'h list option"

definition on :: "string \<Rightarrow> 'h \<Rightarrow> 'h Handlers \<Rightarrow> 'h Handlers" where
  "on event handler hs =
     (let hs1 = (if hs event = None then hs(event \<mapsto> []) else hs)
      in hs1(event \<mapsto> (case hs1 event of None \<Rightarrow> [] | Some l \<Rightarrow> l) @ [handler]))"

text \<open>\<open>indexOf\<close> (\<open>None\<close> for -1) and \<open>splice(index, 1)\<close>.\<close>

fun indexOf :: "'a list \<Rightarrow> 'a \<Rightarrow> nat option" where
  "indexOf [] x = None"
| "indexOf (y # ys) x = (if y = x then Some 0 else map_option Suc (indexOf ys x))"

definition spliceOne :: "nat \<Rightarrow> 'a list \<Rightarrow> 'a list" where
  "spliceOne i xs = take i xs @ drop (Suc i) xs"

definition off :: "string \<Rightarrow> 'h \<Rightarrow> 'h Handlers \<Rightarrow> 'h Handlers" where
  "off event handler hs =
     (case hs event of
        None \<Rightarrow> hs
      | Some l \<Rightarrow> (case indexOf l handler of
                     None \<Rightarrow> hs
                   | Some index \<Rightarrow> hs(event \<mapsto> spliceOne index l)))"

definition registered :: "string \<Rightarrow> 'h Handlers \<Rightarrow> 'h list" where
  "registered event hs = (case hs event of None \<Rightarrow> [] | Some l \<Rightarrow> l)"

definition newEmitter :: "'h Handlers" where
  "newEmitter = (\<lambda>event. None)"

text \<open>
  What a call of a handler does is given by a behaviour: from the data and the state
  \<open>'w\<close> that the handlers share outside the emitter, the handler leaves a new outside
  state, makes calls of \<open>on\<close>, \<open>off\<close> and \<open>emit\<close> on the emitter, in order, and then
  returns or throws a value. The handler table itself is private to the emitter, so a
  handler reaches it through these calls only. What is thrown inside an \<open>emit\<close> that a
  handler calls leaves that handler as well. A handler that does not return is not
  modelled.
\<close>

datatype ('h, 'd) EmitterCall = CallOn string 'h | CallOff string 'h | CallEmit string 'd

datatype ('h, 'd, 'w, 'x) Outcome =
    Returns 'w "('h, 'd) EmitterCall list"
  | Throws 'w "('h, 'd) EmitterCall list" 'x

text \<open>The emitter with its surroundings: the table, the outside state, and the calls of
  handlers made so far, each with the data passed.\<close>

record ('h, 'd, 'w) EmitterState =
  handlers :: "'h Handlers"
  outside :: 'w
  invoked :: "('h \<times> 'd) list"

text \<open>
  \<open>emit\<close>. The loop \<open>for (const handler of this.handlers.get(event)!)\<close> walks the
  array of the name by index and reads the array as it is at each step, so what handlers
  do to that array while the loop runs shows in the loop; no \<open>on\<close> or \<open>off\<close> ever puts
  another array under a name that has one. There is no \<open>try\<close>: a value thrown by a
  handler ends the loop and leaves \<open>emit\<close>. Since handlers may register handlers, the
  loop need not end: a handler call costs one unit of the first argument, and \<open>None\<close>
  says that the units did not suffice.
\<close>

fun emitFrom ::
  "nat \<Rightarrow> ('h \<Rightarrow> 'd \<Rightarrow> 'w \<Rightarrow> ('h, 'd, 'w, 'x) Outcome) \<Rightarrow> string \<Rightarrow> 'd \<Rightarrow> nat
     \<Rightarrow> ('h, 'd, 'w) EmitterState \<Rightarrow> ('x + unit) option \<times> ('h, 'd, 'w) EmitterState"
and runCalls ::
  "nat \<Rightarrow> ('h \<Rightarrow> 'd \<Rightarrow> 'w \<Rightarrow> ('h, 'd, 'w, 'x) Outcome) \<Rightarrow> ('h, 'd) EmitterCall list
     \<Rightarrow> ('h, 'd, 'w) EmitterState \<Rightarrow> ('x + unit) option \<times> ('h, 'd, 'w) EmitterState"
where
  "emitFrom n behave event data i s =
     (let l = registered event (handlers s)
      in if length l \<le> i then (Some (Inr ()), s)
         else (case n of
                 0 \<Rightarrow> (None, s)
               | Suc m \<Rightarrow>
                   (case behave (l ! i) data (outside s) of
                      Returns w calls \<Rightarrow>
                        (case runCalls m behave calls
                                (s\<lparr>outside := w, invoked := invoked s @ [(l ! i, data)]\<rparr>) of
                           (Some (Inr u), s') \<Rightarrow> emitFrom m behave event data (Suc i) s'
                         | (r, s') \<Rightarrow> (r, s'))
                    | Throws w calls x \<Rightarrow>
                        (case runCalls m behave calls
                                (s\<lparr>outside := w, invoked := invoked s @ [(l ! i, data)]\<rparr>) of
                           (Some (Inr u), s') \<Rightarrow> (Some (Inl x), s')
                         | (r, s') \<Rightarrow> (r, s')))))"
| "runCalls n behave [] s = (Some (Inr ()), s)"
| "runCalls n behave (CallOn event handler # calls) s =
     runCalls n behave calls (s\<lparr>handlers := on event handler (handlers s)\<rparr>)"
| "runCalls n behave (CallOff event handler # calls) s =
     runCalls n behave calls (s\<lparr>handlers := off event handler (handlers s)\<rparr>)"
| "runCalls n behave (CallEmit event data # calls) s =
     (case emitFrom n behave event data 0 s of
        (Some (Inr u), s') \<Rightarrow> runCalls n behave calls s'
      | (r, s') \<Rightarrow> (r, s'))"

declare emitFrom.simps [simp del]

definition emit ::
  "nat \<Rightarrow> ('h \<Rightarrow> 'd \<Rightarrow> 'w \<Rightarrow> ('h, 'd, 'w, 'x) Outcome) \<Rightarrow> string \<Rightarrow> 'd
     \<Rightarrow> ('h, 'd, 'w) EmitterState \<Rightarrow> ('x + unit) option \<times> ('h, 'd, 'w) EmitterState" where
  "emit n behave event data s = emitFrom n behave event data 0 s"

text \<open>A handler that, given the data, returns from every outside state without calling
  the emitter.\<close>

definition quiet :: "('h \<Rightarrow> 'd \<Rightarrow> 'w \<Rightarrow> ('h, 'd, 'w, 'x) Outcome) \<Rightarrow> 'd \<Rightarrow> 'h \<Rightarrow> bool" where
  "quiet behave data h = (\<forall>w. \<exists>w'. behave h data w = Returns w' [])"

section \<open>Example data\<close>

text \<open>Objects as the literals of \<open>addTask\<close>, \<open>addMilestone\<close> and \<open>createProject\<close> build
  them, with the status and the points given, and progress data holding such projects,
  as \<open>load\<close> or \<open>setProgressData\<close> take it in.\<close>

definition mkTask :: "string \<Rightarrow> Status \<Rightarrow> jsnum \<Rightarrow> Task" where
  "mkTask tid st points =
     \<lparr> taskId = tid, status = st, priority = Must, estimatedPoints = points,
       actualPoints = None, startTime = None, endTime = None \<rparr>"

definition mkMilestone :: "string \<Rightarrow> Status \<Rightarrow> Task list \<Rightarrow> Milestone" where
  "mkMilestone mid st ts =
     \<lparr> milestoneId = mid, milestoneStatus = st, completedDate = None, tasks = ts \<rparr>"

definition mkProject :: "string \<Rightarrow> Milestone list \<Rightarrow> Project" where
  "mkProject pid ms =
     \<lparr> projectId = pid, projectStatus = NotStarted, updatedAt = ''2025-01-01T00:00:00.000Z'',
       milestones = Some ms \<rparr>"

definition mkState :: "Project list \<Rightarrow> ManagerState" where
  "mkState ps =
     \<lparr> progressData =
         Some ((createEmptyProgressData (Num 1))\<lparr>projects := ps, projectIds := map projectId ps\<rparr>),
       projectMap = (\<lambda>k. None),
       emitted = [] \<rparr>"

text \<open>A runtime for the examples: the seed 1, a clock reading, and the milliseconds of
  three instants half an hour apart.\<close>

definition exampleGetTime :: "string \<Rightarrow> int option" where
  "exampleGetTime s =
     (if s = ''2025-01-01T10:00:00.000Z'' then Some 1735725600000
      else if s = ''2025-01-01T10:30:00.000Z'' then Some 1735727400000
      else if s = ''2025-01-01T11:00:00.000Z'' then Some 1735729200000
      else None)"

definition exampleRuntime :: Runtime where
  "exampleRuntime =
     \<lparr> pointsPerHour = Num 1, clock = ''2025-01-02T00:00:00.000Z'', parseDate = exampleGetTime \<rparr>"

definition cascadeProject :: Project where
  "cascadeProject =
     mkProject ''P''
       [mkMilestone ''M1'' Completed
          [mkTask ''T1'' Completed (Num 2), mkTask ''T2'' Completed (Num 3),
           mkTask ''T3'' InProgress (Num 5)],
        mkMilestone ''M2'' Blocked []]"

definition closingProject :: Project where
  "closingProject =
     mkProject ''P''
       [mkMilestone ''M1'' InProgress
          [mkTask ''T1'' Completed (Num 2), mkTask ''T2'' Completed (Num 3),
           mkTask ''T3'' InProgress (Num 5)]]"


definition doneTask :: "string \<Rightarrow> jsnum \<Rightarrow> jsnum option \<Rightarrow> Task" where
  "doneTask tid points actual =
     (mkTask tid Completed points)
       \<lparr>actualPoints := actual,
        startTime := Some ''2025-01-01T10:00:00.000Z'',
        endTime := Some ''2025-01-01T11:00:00.000Z''\<rparr>"

text \<open>A manager whose storage has loaded no data yet.\<close>

definition unloadedState :: ManagerState where
  "unloadedState = \<lparr> progressData = None, projectMap = (\<lambda>k. None), emitted = [] \<rparr>"

definition zeroActualState :: ManagerState where
  "zeroActualState =
     mkState [mkProject ''P'' [mkMilestone ''M1'' Completed
       [doneTask ''T1'' (Num 5) (Some (Num 0))]]]"

definition workedState :: ManagerState where
  "workedState =
     mkState [mkProject ''P'' [mkMilestone ''M1'' Completed
       [mkTask ''T1'' Completed (Num 2), mkTask ''T2'' Completed (Num 3),
        mkTask ''T3'' Completed (Num 5)]]]"

definition timedState :: ManagerState where
  "timedState =
     mkState [mkProject ''P'' [mkMilestone ''M1'' InProgress
       [doneTask ''T1'' (Num 3) (Some (Num 3)), mkTask ''T2'' InProgress (Num 4)]]]"

text \<open>
  A completed task of \<open>2\<^sup>1\<^sup>0\<^sup>2\<^sup>3\<close> estimated points (a finite binary64 value, about
  \<open>8.99e307\<close>) that took half an hour.
\<close>

definition hugePoints :: rat where
  "hugePoints = 2 ^ 1023"

definition overflowState :: ManagerState where
  "overflowState =
     mkState [mkProject ''P'' [mkMilestone ''M1'' Completed
       [(doneTask ''T1'' (Num hugePoints) None)\<lparr>endTime := Some ''2025-01-01T10:30:00.000Z''\<rparr>]]]"

text \<open>
  A platform for the examples: an event is written as its id, and every line other than
  \<open>corrupt\<close> parses to the event with that id.
\<close>

definition exampleEvent :: "string \<Rightarrow> Event" where
  "exampleEvent eid =
     createEvent eid ''2025-01-01T10:00:00.000Z'' ''task_created''
       (emptyPayload\<lparr>payloadTask := Some eid\<rparr>)"

definition examplePlatform :: Platform where
  "examplePlatform =
     \<lparr> jsonStringify = eventId,
       jsonParse = (\<lambda>line. if line = ''corrupt'' then None else Some (exampleEvent line)),
       getTime = exampleGetTime \<rparr>"

definition workingDisk :: "string option \<Rightarrow> Disk" where
  "workingDisk content = \<lparr> dirExists = True, fileContent = content, fails = (\<lambda>op. False) \<rparr>"

definition fullDisk :: "string option \<Rightarrow> Disk" where
  "fullDisk content =
     \<lparr> dirExists = True, fileContent = content, fails = (\<lambda>op. op = AppendFile) \<rparr>"

definition freshWorld :: "Disk \<Rightarrow> World" where
  "freshWorld d = \<lparr> store = newFileEventStore, disk = d, console = [] \<rparr>"

definition loadedWorld :: "Event list \<Rightarrow> Disk \<Rightarrow> World" where
  "loadedWorld es d = \<lparr> store = \<lparr> events = es, initialized = True \<rparr>, disk = d, console = [] \<rparr>"

definition dependencyLog :: "Event list" where
  "dependencyLog =
     [createTaskDependencyAddedEvent ''e1'' ''2025-01-01T10:00:00.000Z'' ''T1'' ''T2'',
      createTaskDependencyAddedEvent ''e2'' ''2025-01-01T10:00:00.000Z'' ''T2'' ''T3'']"

text \<open>A store holding one event object, at address 0, in its array at address 1.\<close>

definition exampleHeap :: Heap where
  "exampleHeap =
     \<lparr> objects = (\<lambda>r. None)(0 \<mapsto> exampleEvent ''a''),
       arrays = (\<lambda>a. None)(1 \<mapsto> [0]),
       nextAddr = 2,
       eventsArray = 1 \<rparr>"

definition tampered :: Event where
  "tampered = (exampleEvent ''a'')\<lparr>eventType := ''tampered''\<rparr>"

text \<open>
  Handlers for the examples, named by numbers, with the number of handler calls made so
  far as the outside state: handler 3 unregisters itself from \<open>tick\<close> when called,
  handler 4 throws, every other handler only counts.
\<close>

definition exampleBehave :: "nat \<Rightarrow> string \<Rightarrow> nat \<Rightarrow> (nat, string, nat, string) Outcome" where
  "exampleBehave h d w =
     (if h = 3 then Returns (w + 1) [CallOff ''tick'' 3]
      else if h = 4 then Throws (w + 1) [] ''boom''
      else Returns (w + 1) [])"

text \<open>An emitter on which the given handlers were registered for \<open>tick\<close>, in order.\<close>

definition tickEmitter :: "nat list \<Rightarrow> (nat, string, nat) EmitterState" where
  "tickEmitter hs =
     \<lparr> handlers = fold (on ''tick'') hs newEmitter, outside = 0, invoked = [] \<rparr>"

section \<open>Rounding at the numbers of the examples\<close>

lemma binary64_small:
  "binary64 1 = Num 1" "binary64 2 = Num 2" "binary64 3 = Num 3" "binary64 5 = Num 5"
  "binary64 7 = Num 7" "binary64 10 = Num 10" "binary64 3600000 = Num 3600000"
  apply (simp_all add: binary64_def Let_def)
  apply (simp_all add: exponentOf_def bits.simps)
  apply (simp_all add: pow2_def)
  apply (simp_all add: roundHalfEven_def Let_def)
  done

section \<open>Properties of the status cascade\<close>

lemma find_updateFirst:
  "(\<And>x. P x \<Longrightarrow> P (f x)) \<Longrightarrow> List.find P (updateFirst P f xs) = map_option f (List.find P xs)"
  by (induction xs) auto

lemma find_replaceFirst:
  "P y \<Longrightarrow> List.find P (replaceFirst P y xs) = map_option (\<lambda>x. y) (List.find P xs)"
  by (induction xs) auto

lemma milestoneStatusOf_precedence:
  "milestoneStatusOf ts = precedenceRule (map status ts)"
  by (auto simp: milestoneStatusOf_def precedenceRule_def list_all_iff list_ex_iff
      intro: rev_image_eqI)

lemma projectStatusOf_precedence:
  "projectStatusOf ms = precedenceRule (map milestoneStatus ms)"
  by (auto simp: projectStatusOf_def precedenceRule_def list_all_iff list_ex_iff
      intro: rev_image_eqI)

lemma getProgressData_Some: "progressData s = Some pd \<Longrightarrow> getProgressData rt s = (pd, s)"
  by (simp add: getProgressData_def)

lemma emit_progress_fields:
  "progressData (emit_progress e s) = progressData s"
  "projectMap (emit_progress e s) = projectMap s"
  by (simp_all add: emit_progress_def)

text \<open>After a project that is an entry has been handed to \<open>updateProject\<close>, the entry of
  its id is the base copy, and the project itself is in the project map.\<close>

lemma stored_base:
  assumes "progressData s = Some pd" and "findProject pid pd = Some p"
    and "projectId p' = pid"
  shows "\<exists>pd'. progressData (storage_updateProject p' (modifyProject pid (\<lambda>p. p') s)) = Some pd'
           \<and> findProject pid pd' = Some (projectBase p')"
    and "projectMap (storage_updateProject p' (modifyProject pid (\<lambda>p. p') s)) pid = Some p'"
  using assms
  by (simp_all add: storage_updateProject_def modifyProject_def findProject_def
      find_replaceFirst find_updateFirst projectBase_def)

lemma updateProjectStatus_base:
  assumes "progressData s = Some pd" and "findProject pid pd = Some p" and "milestones p = None"
  shows "updateProjectStatus rt pid s = (Inl TypeError, s)"
  using assms by (simp add: updateProjectStatus_def getProgressData_Some)

text \<open>The cascade from a milestone that has a task: the status of the rule is assigned,
  the project goes to the storage, and the recomputation of the project throws.\<close>

lemma updateMilestoneStatus_throws:
  assumes pd: "progressData s = Some pd" and p: "findProject pid pd = Some p"
    and ms: "milestones p = Some ms" and m: "findMilestone mid ms = Some m"
    and ts: "tasks m \<noteq> []"
  shows "\<exists>p' m' pd'. fst (updateMilestoneStatus rt pid mid s) = Inl TypeError
           \<and> projectMap (snd (updateMilestoneStatus rt pid mid s)) pid = Some p'
           \<and> milestoneIn mid p' = Some m'
           \<and> tasks m' = tasks m
           \<and> milestoneStatus m' = milestoneStatusOf (tasks m)
           \<and> progressData (snd (updateMilestoneStatus rt pid mid s)) = Some pd'
           \<and> findProject pid pd' = Some (projectBase p')"
proof -
  define st where "st = milestoneStatusOf (tasks m)"
  define m' where "m' = (if st = Completed
                         then m\<lparr>milestoneStatus := st, completedDate := Some (clock rt)\<rparr>
                         else m\<lparr>milestoneStatus := st\<rparr>)"
  define p' where "p' = inMilestone mid (\<lambda>m. m') p"
  define s1 where "s1 = modifyProject pid (\<lambda>p. p') s"
  define s2 where "s2 = (if st = Completed then emit_progress MILESTONE_COMPLETED s1 else s1)"
  define s4 where "s4 = emit_progress MILESTONE_UPDATED (storage_updateProject p' s2)"
  have pid: "projectId p = pid"
    using p by (auto simp: findProject_def find_Some_iff)
  then have pid': "projectId p' = pid"
    by (simp add: p'_def inMilestone_def)
  have mid: "milestoneId m = mid"
    using m by (auto simp: findMilestone_def find_Some_iff)
  have s2_eq: "storage_updateProject p' s2
                 = (if st = Completed
                    then emit_progress MILESTONE_COMPLETED (storage_updateProject p' s1)
                    else storage_updateProject p' s1)"
    by (simp add: s2_def storage_updateProject_def emit_progress_def split: option.splits)
  from stored_base[OF pd p pid']
  obtain pd' where pd': "progressData s4 = Some pd'"
    and base: "findProject pid pd' = Some (projectBase p')"
    and pm: "projectMap s4 pid = Some p'"
    by (auto simp: s4_def s2_eq s1_def emit_progress_fields)
  have thrown: "updateProjectStatus rt pid s4 = (Inl TypeError, s4)"
    using updateProjectStatus_base[OF pd' base] by (simp add: projectBase_def)
  have "updateMilestoneStatus rt pid mid s
          = (case updateProjectStatus rt pid s4 of
               (Inl e, s5) \<Rightarrow> (Inl e, s5)
             | (Inr p, s5) \<Rightarrow> (Inr (Some m'), s5))"
    unfolding updateMilestoneStatus_def s4_def s2_def s1_def p'_def m'_def st_def
    using pd p ms m ts
    by (simp add: getProgressData_Some Let_def)
  then have res: "updateMilestoneStatus rt pid mid s = (Inl TypeError, s4)"
    by (simp only: thrown prod.case sum.case)
  have "milestoneIn mid p' = Some m'"
    using ms m mid
    by (simp add: milestoneIn_def p'_def inMilestone_def findMilestone_def find_updateFirst m'_def)
  moreover have "tasks m' = tasks m" "milestoneStatus m' = st"
    by (simp_all add: m'_def)
  ultimately show ?thesis
    using res pd' base pm by (simp add: st_def)
qed


lemmas ex_defs = mkTask_def mkMilestone_def mkProject_def mkState_def cascadeProject_def
  createEmptyProgressData_def exampleRuntime_def

lemmas manager_defs = updateTaskStatus_def updateMilestoneStatus_def updateProjectStatus_def
  getProgressData_def setProgressData_def storage_updateProject_def projectBase_def
  findProject_def findMilestone_def findTask_def taskIn_def milestoneIn_def milestonesOf_def
  modifyProject_def inMilestone_def inTask_def emit_progress_def stampTask_def
  milestoneStatusOf_def projectStatusOf_def Let_def

text \<open>
  C1. A loaded project whose milestone M1 is InProgress with the tasks Completed,
  Completed and InProgress. Completing the third task through \<open>updateTaskStatus\<close>
  hands the project to the storage, which replaces its entry in the progress data by a
  copy without milestones; the recomputation of the milestone then throws a
  \<open>TypeError\<close>: the tasks of M1 are all Completed and M1 is still InProgress, where
  the precedence rule gives Completed. Recomputing directly a milestone M1 with the tasks
  Completed, Completed and InProgress assigns InProgress, as the rule says, but the
  recomputation of the project that follows throws in the same way, so that no project
  status is recomputed. Recomputing the empty milestone M2 returns it as NotStarted.
\<close>

theorem cascade_throws_at_failing_input:
  "fst (updateTaskStatus exampleRuntime ''P'' ''M1'' ''T3'' Completed (mkState [closingProject]))
     = Inl TypeError
   \<and> map_option (map (\<lambda>m. (milestoneStatus m, map status (tasks m))) \<circ> milestonesOf)
        (projectMap (snd (updateTaskStatus exampleRuntime ''P'' ''M1'' ''T3'' Completed
                            (mkState [closingProject]))) ''P'')
       = Some [(InProgress, [Completed, Completed, Completed])]
   \<and> precedenceRule [Completed, Completed, Completed] = Completed
   \<and> map_option (map milestones \<circ> projects)
        (progressData (snd (updateTaskStatus exampleRuntime ''P'' ''M1'' ''T3'' Completed
                              (mkState [closingProject]))))
       = Some [None]
   \<and> precedenceRule [Completed, Completed, InProgress] = InProgress
   \<and> fst (updateMilestoneStatus exampleRuntime ''P'' ''M1'' (mkState [cascadeProject]))
       = Inl TypeError
   \<and> map_option (map milestoneStatus \<circ> milestonesOf)
        (projectMap (snd (updateMilestoneStatus exampleRuntime ''P'' ''M1''
                            (mkState [cascadeProject]))) ''P'')
       = Some [InProgress, Blocked]
   \<and> map_option (map milestones \<circ> projects)
        (progressData (snd (updateMilestoneStatus exampleRuntime ''P'' ''M1''
                              (mkState [cascadeProject]))))
       = Some [None]
   \<and> fst (updateMilestoneStatus exampleRuntime ''P'' ''M2'' (mkState [cascadeProject]))
       = Inr (Some (mkMilestone ''M2'' NotStarted []))"
  by (simp add: manager_defs ex_defs closingProject_def precedenceRule_def)

section \<open>Properties of task status changes\<close>




lemma progressData_getProgressData:
  "progressData (snd (getProgressData rt s)) = Some (fst (getProgressData rt s))"
  by (simp add: getProgressData_def setProgressData_def split: option.splits)

lemma getProgressData_idem:
  "getProgressData rt (snd (getProgressData rt s)) = getProgressData rt s"
  by (simp add: getProgressData_def setProgressData_def split: option.splits)






section \<open>Properties of the statistics\<close>

lemma fold_nested: "fold (\<lambda>x. fold f (g x)) xs a = fold f (concat (map g xs)) a"
  by (induction xs arbitrary: a) auto

lemma concat_nested:
  "concat (map g (concat (map f xs))) = concat (map (\<lambda>x. concat (map g (f x))) xs)"
  by (induction xs) auto

lemma tally_allTasks:
  "tally pd = fold tallyTask (allTasks pd)
                \<lparr>tallyTasks = 0, tallyCompleted = 0, tallyPoints = Num 0, tallyEarned = Num 0\<rparr>"
  by (simp add: tally_def allTasks_def fold_nested concat_nested)

lemma totalHoursOf_allTasks:
  "totalHoursOf parse pd = fold (addHours parse) (allTasks pd) (Num 0)"
  by (simp add: totalHoursOf_def allTasks_def fold_nested concat_nested)

lemma fold_tallyTask_counts:
  "tallyTasks (fold tallyTask ts c) = tallyTasks c + length ts"
  "tallyCompleted (fold tallyTask ts c)
     = tallyCompleted c + length (filter (\<lambda>t. status t = Completed) ts)"
  by (induction ts arbitrary: c) (auto simp: tallyTask_def Let_def)

lemma fold_tallyTask_sums:
  "tallyPoints (fold tallyTask ts c) = foldl jsAdd (tallyPoints c) (map estimatedPoints ts)"
  "tallyEarned (fold tallyTask ts c)
     = foldl jsAdd (tallyEarned c)
         (map (\<lambda>t. jsOr (actualPoints t) (estimatedPoints t))
            (filter (\<lambda>t. status t = Completed) ts))"
  by (induction ts arbitrary: c) (auto simp: tallyTask_def Let_def)

lemma addHours_step:
  "addHours parse t acc = (if timed t then jsAdd acc (durationHours parse t) else acc)"
  by (auto simp: addHours_def timed_def durationHours_def split: option.splits)

lemma fold_addHours:
  "fold (addHours parse) ts acc
     = foldl jsAdd acc (map (durationHours parse) (filter timed ts))"
proof (induction ts arbitrary: acc)
  case Nil
  show ?case by simp
next
  case (Cons t ts)
  have "fold (addHours parse) (t # ts) acc
          = foldl jsAdd (addHours parse t acc) (map (durationHours parse) (filter timed ts))"
    by (simp add: Cons.IH)
  also have "\<dots> = foldl jsAdd acc (map (durationHours parse) (filter timed (t # ts)))"
    by (simp add: addHours_step)
  finally show ?case .
qed

lemma totalHoursOf_summedDuration: "totalHoursOf parse pd = summedDuration parse pd"
  by (simp add: totalHoursOf_allTasks fold_addHours summedDuration_def)

lemma tallyCompleted_completedCount: "tallyCompleted (tally pd) = completedCount pd"
  by (simp add: tally_allTasks fold_tallyTask_counts completedCount_def)

text \<open>The average that \<open>updateStatistics\<close> leaves, in all its cases.\<close>

lemma updateStatistics_average:
  "map_option (averagePointsPerHour \<circ> statistics) (progressData (snd (updateStatistics rt s)))
     = (if fst (updateStatistics rt s) = Inr ()
           \<and> 0 < completedCount (fst (getProgressData rt s))
           \<and> jsPositive (summedDuration (parseDate rt) (fst (getProgressData rt s)))
        then map_option (\<lambda>pd. jsDiv (earnedPoints (statistics pd))
                                  (summedDuration (parseDate rt) (fst (getProgressData rt s))))
               (progressData (snd (updateStatistics rt s)))
        else Some (averagePointsPerHour (statistics (fst (getProgressData rt s)))))"
proof (cases "getProgressData rt s")
  case (Pair pd s0)
  then have "progressData s0 = Some pd"
    using progressData_getProgressData[of rt s] by simp
  with Pair show ?thesis
    by (simp add: updateStatistics_def Let_def emit_progress_def setProgressData_def
        totalHoursOf_summedDuration tallyCompleted_completedCount)
qed

lemma getProgressData_fresh:
  "progressData s = None \<Longrightarrow>
   averagePointsPerHour (statistics (fst (getProgressData rt s))) = pointsPerHour rt
   \<and> completedCount (fst (getProgressData rt s)) = 0"
  by (simp add: getProgressData_def createEmptyProgressData_def completedCount_def allTasks_def)

lemma jsPositive_not_zero: "jsPositive a \<Longrightarrow> a \<noteq> Num 0"
  by (cases a) auto

lemmas statistics_defs = updateStatistics_def tally_def tallyTask_def totalHoursOf_def
  addHours_def jsOr_def dateNum_def jsSub_def emit_progress_def setProgressData_def
  getProgressData_def milestonesOf_def Let_def

lemma worked_scenario:
  "fst (updateStatistics exampleRuntime workedState) = Inr ()
   \<and> map_option statistics (progressData (snd (updateStatistics exampleRuntime workedState)))
       = Some \<lparr> totalTasks = 3, completedTasks = 3, totalPoints = Num 10, earnedPoints = Num 10,
                averagePointsPerHour = Num 1 \<rparr>"
  by (simp add: statistics_defs workedState_def ex_defs binary64_small)

text \<open>
  C5. The statistics at a completed task whose \<open>actualPoints\<close> is present and 0 while
  its estimate is 5: the task is counted and its estimate enters \<open>totalPoints\<close>, and
  \<open>earnedPoints\<close> is 5, the estimate, where the recorded actual points are 0.
\<close>

theorem updateStatistics_zero_actualPoints:
  "map_option (map actualPoints \<circ> allTasks) (progressData zeroActualState) = Some [Some (Num 0)]
   \<and> fst (updateStatistics exampleRuntime zeroActualState) = Inr ()
   \<and> map_option (totalTasks \<circ> statistics)
        (progressData (snd (updateStatistics exampleRuntime zeroActualState))) = Some 1
   \<and> map_option (completedTasks \<circ> statistics)
        (progressData (snd (updateStatistics exampleRuntime zeroActualState))) = Some 1
   \<and> map_option (totalPoints \<circ> statistics)
        (progressData (snd (updateStatistics exampleRuntime zeroActualState))) = Some (Num 5)
   \<and> map_option (earnedPoints \<circ> statistics)
        (progressData (snd (updateStatistics exampleRuntime zeroActualState))) = Some (Num 5)"
  by (simp add: statistics_defs zeroActualState_def doneTask_def ex_defs allTasks_def
      exampleGetTime_def binary64_small)

lemma bits_pow2: "bits (2 ^ k) = Suc k"
proof (induction k)
  case 0
  show ?case by (simp add: bits.simps)
next
  case (Suc k)
  have "bits (2 ^ Suc k) = Suc (bits (2 ^ Suc k div 2))"
    by (subst bits.simps) simp
  also have "\<dots> = Suc (Suc k)"
    using Suc by simp
  finally show ?case .
qed

lemma exponentOf_pow2: "exponentOf (2 ^ k) = int k"
proof -
  have "\<lfloor>(2::rat) ^ k\<rfloor> = 2 ^ k"
    by (simp add: floor_power)
  then have e: "nat \<lfloor>(2::rat) ^ k\<rfloor> = 2 ^ k"
    by (simp add: nat_power_eq)
  have "(1::rat) \<le> 2 ^ k"
    by simp
  then show ?thesis
    unfolding exponentOf_def e bits_pow2 by simp
qed

lemma roundHalfEven_of_int: "roundHalfEven (of_int n) = n"
  by (simp add: roundHalfEven_def)

text \<open>A power of two from \<open>2\<^sup>5\<^sup>2\<close> on is a binary64 value up to \<open>2\<^sup>1\<^sup>0\<^sup>2\<^sup>3\<close>, and rounds to
  infinity from \<open>2\<^sup>1\<^sup>0\<^sup>2\<^sup>4\<close> on.\<close>

lemma binary64_pow2:
  assumes "52 \<le> k"
  shows "binary64 (2 ^ k) = (if k < 1024 then Num (2 ^ k) else PosInf)"
proof -
  have ulp: "pow2 (max (int k) (- 1022) - 52) = 2 ^ (k - 52)"
    using assms by (simp add: pow2_def nat_diff_distrib')
  have split: "(2::rat) ^ k = 2 ^ 52 * 2 ^ (k - 52)"
    using assms power_add[of "2::rat" 52 "k - 52"] by (simp del: power_numeral)
  have "(2::rat) ^ k / 2 ^ (k - 52) = 2 ^ 52"
    unfolding split by (simp del: power_numeral)
  also have "\<dots> = of_int (2 ^ 52)"
    by simp
  finally have quot: "(2::rat) ^ k / 2 ^ (k - 52) = of_int (2 ^ 52)" .
  have "of_int (roundHalfEven ((2::rat) ^ k / 2 ^ (k - 52))) * (2::rat) ^ (k - 52)
          = of_int (2 ^ 52) * 2 ^ (k - 52)"
    unfolding quot roundHalfEven_of_int ..
  also have "\<dots> = 2 ^ k"
    unfolding split by simp
  finally have y: "of_int (roundHalfEven ((2::rat) ^ k / 2 ^ (k - 52))) * (2::rat) ^ (k - 52) = 2 ^ k" .
  have top: "pow2 1024 = 2 ^ 1024"
    unfolding pow2_def by (simp del: power_numeral)
  have cmp: "((2::rat) ^ 1024 \<le> 2 ^ k) = (1024 \<le> k)"
    by (rule power_increasing_iff) simp
  have ab: "\<bar>(2::rat) ^ k\<bar> = 2 ^ k"
    by simp
  have nz: "(2::rat) ^ k \<noteq> 0" "(0::rat) < 2 ^ k"
    by simp_all
  have "binary64 (2 ^ k) = (if pow2 1024 \<le> (2::rat) ^ k then PosInf else Num (2 ^ k))"
    unfolding binary64_def Let_def ab exponentOf_pow2 ulp y
    by (simp only: nz if_False if_True)
  then show ?thesis
    unfolding top cmp by (simp del: power_numeral)
qed

lemma binary64_half:
  "binary64 1800000 = Num 1800000" "binary64 (1 / 2) = Num (1 / 2)"
  apply (simp_all add: binary64_def Let_def)
  apply (simp_all add: exponentOf_def bits.simps)
  apply (simp_all add: pow2_def)
  apply (simp_all add: roundHalfEven_def Let_def)
  done

lemma hugePoints_positive: "0 < hugePoints" "hugePoints \<noteq> 0"
  by (simp_all add: hugePoints_def)

lemma binary64_hugePoints: "binary64 hugePoints = Num hugePoints"
  unfolding hugePoints_def using binary64_pow2[of 1023] by (simp del: power_numeral)

lemma binary64_twice_hugePoints: "binary64 (hugePoints * 2) = PosInf"
proof -
  have "hugePoints * 2 = 2 ^ 1024"
    unfolding hugePoints_def by simp
  then show ?thesis
    using binary64_pow2[of 1024] by (simp del: power_numeral)
qed

lemma overflow_scenario:
  "map_option statistics (progressData (snd (updateStatistics exampleRuntime overflowState)))
     = Some \<lparr> totalTasks = 1, completedTasks = 1, totalPoints = Num hugePoints,
              earnedPoints = Num hugePoints, averagePointsPerHour = PosInf \<rparr>"
  by (simp add: statistics_defs overflowState_def doneTask_def ex_defs exampleGetTime_def
      binary64_small binary64_half binary64_hugePoints hugePoints_positive
      binary64_twice_hugePoints)

lemmas duration_defs = summedDuration_def durationHours_def timed_def completedCount_def
  allTasks_def milestonesOf_def dateNum_def jsSub_def getProgressData_def

text \<open>
  C7 (as the code has it). \<open>updateStatistics\<close> assigns \<open>averagePointsPerHour\<close> only when
  at least one task is completed and the binary64 sum of the durations of the completed
  tasks with both time stamps compares greater than 0 (which a \<open>NaN\<close> sum does not).
  Otherwise the prior value stays, and on data created on first use that is the
  configured seed. When it assigns, the divisor is not zero and the value stored is the
  binary64 quotient of the earned points by that sum, as it comes: there is no test that
  it is finite.
\<close>

theorem averagePointsPerHour_assigned_under_guards:
  "(\<not> (0 < completedCount (fst (getProgressData rt s))
        \<and> jsPositive (summedDuration (parseDate rt) (fst (getProgressData rt s))))
      \<longrightarrow> map_option (averagePointsPerHour \<circ> statistics)
            (progressData (snd (updateStatistics rt s)))
          = Some (averagePointsPerHour (statistics (fst (getProgressData rt s)))))
   \<and> (progressData s = None
      \<longrightarrow> map_option (averagePointsPerHour \<circ> statistics)
            (progressData (snd (updateStatistics rt s)))
          = Some (pointsPerHour rt))
   \<and> (fst (updateStatistics rt s) = Inr ()
        \<and> 0 < completedCount (fst (getProgressData rt s))
        \<and> jsPositive (summedDuration (parseDate rt) (fst (getProgressData rt s)))
      \<longrightarrow> summedDuration (parseDate rt) (fst (getProgressData rt s)) \<noteq> Num 0
          \<and> (\<exists>pd'. progressData (snd (updateStatistics rt s)) = Some pd'
                \<and> averagePointsPerHour (statistics pd')
                    = jsDiv (earnedPoints (statistics pd'))
                        (summedDuration (parseDate rt) (fst (getProgressData rt s)))))"
proof (intro conjI impI)
  assume "\<not> (0 < completedCount (fst (getProgressData rt s))
        \<and> jsPositive (summedDuration (parseDate rt) (fst (getProgressData rt s))))"
  then show "map_option (averagePointsPerHour \<circ> statistics)
            (progressData (snd (updateStatistics rt s)))
          = Some (averagePointsPerHour (statistics (fst (getProgressData rt s))))"
    unfolding updateStatistics_average by presburger
next
  assume "progressData s = None"
  then show "map_option (averagePointsPerHour \<circ> statistics)
            (progressData (snd (updateStatistics rt s))) = Some (pointsPerHour rt)"
    unfolding updateStatistics_average using getProgressData_fresh[of s rt] by simp
next
  assume g: "fst (updateStatistics rt s) = Inr ()
        \<and> 0 < completedCount (fst (getProgressData rt s))
        \<and> jsPositive (summedDuration (parseDate rt) (fst (getProgressData rt s)))"
  then show "summedDuration (parseDate rt) (fst (getProgressData rt s)) \<noteq> Num 0"
    using jsPositive_not_zero by blast
  from g have "map_option (averagePointsPerHour \<circ> statistics)
                 (progressData (snd (updateStatistics rt s)))
               = map_option (\<lambda>pd. jsDiv (earnedPoints (statistics pd))
                                  (summedDuration (parseDate rt) (fst (getProgressData rt s))))
                   (progressData (snd (updateStatistics rt s)))"
    using updateStatistics_average[of rt s] by presburger
  moreover from g obtain pd' where "progressData (snd (updateStatistics rt s)) = Some pd'"
    by (cases "getProgressData rt s")
       (auto simp: updateStatistics_def Let_def emit_progress_def setProgressData_def
             split: if_splits)
  ultimately show "\<exists>pd'. progressData (snd (updateStatistics rt s)) = Some pd'
                \<and> averagePointsPerHour (statistics pd')
                    = jsDiv (earnedPoints (statistics pd'))
                        (summedDuration (parseDate rt) (fst (getProgressData rt s)))"
    by simp
qed

theorem averagePointsPerHour_assigned_under_guards_witness:
  "completedCount (fst (getProgressData exampleRuntime timedState)) = 1
   \<and> summedDuration (parseDate exampleRuntime) (fst (getProgressData exampleRuntime timedState))
       = Num 1
   \<and> fst (updateStatistics exampleRuntime timedState) = Inr ()
   \<and> map_option (averagePointsPerHour \<circ> statistics)
        (progressData (snd (updateStatistics exampleRuntime timedState))) = Some (Num 3)
   \<and> completedCount (fst (getProgressData exampleRuntime workedState)) = 3
   \<and> summedDuration (parseDate exampleRuntime) (fst (getProgressData exampleRuntime workedState))
       = Num 0
   \<and> map_option (averagePointsPerHour \<circ> statistics)
        (progressData (snd (updateStatistics exampleRuntime workedState))) = Some (Num 1)
   \<and> progressData unloadedState = None
   \<and> map_option (averagePointsPerHour \<circ> statistics)
        (progressData (snd (updateStatistics exampleRuntime unloadedState))) = Some (Num 1)"
  using averagePointsPerHour_assigned_under_guards[of exampleRuntime timedState]
    averagePointsPerHour_assigned_under_guards[of exampleRuntime workedState]
    averagePointsPerHour_assigned_under_guards[of exampleRuntime unloadedState]
  by (simp add: statistics_defs duration_defs timedState_def workedState_def unloadedState_def
      doneTask_def ex_defs exampleGetTime_def binary64_small)

text \<open>
  C7 as the specification words it fails at one completed task of \<open>2\<^sup>1\<^sup>0\<^sup>2\<^sup>3\<close> estimated
  points that took half an hour: every number of the input is finite, both guards hold
  (one completed task, a summed duration of 1/2), and the average stored is the quotient
  rounded to binary64, which is infinity.
\<close>

theorem averagePointsPerHour_overflow_counterexample:
  "list_all (jsFinite \<circ> estimatedPoints) (allTasks (fst (getProgressData exampleRuntime overflowState)))
   \<and> completedCount (fst (getProgressData exampleRuntime overflowState)) = 1
   \<and> summedDuration (parseDate exampleRuntime) (fst (getProgressData exampleRuntime overflowState))
       = Num (1 / 2)
   \<and> fst (updateStatistics exampleRuntime overflowState) = Inr ()
   \<and> map_option (averagePointsPerHour \<circ> statistics)
        (progressData (snd (updateStatistics exampleRuntime overflowState))) = Some PosInf
   \<and> \<not> jsFinite PosInf"
  by (simp add: statistics_defs duration_defs overflowState_def doneTask_def ex_defs
      exampleGetTime_def binary64_small binary64_half binary64_hugePoints hugePoints_positive
      binary64_twice_hugePoints)

section \<open>Properties of the file event store\<close>

lemma initialize_initialized: "initialized (store w) \<Longrightarrow> initialize pf w = (Inr (), w)"
  by (simp add: initialize_def)

lemma disk_loadEvents: "disk (loadEvents pf w) = disk w"
  by (simp add: loadEvents_def setEvents_def report_def Let_def split: option.splits)

lemma fileContent_initialize: "fileContent (disk (snd (initialize pf w))) = fileContent (disk w)"
  by (auto simp: initialize_def ensureDir_def report_def setEvents_def disk_loadEvents Let_def
      split: option.splits)

lemma fails_initialize: "fails (disk (snd (initialize pf w))) = fails (disk w)"
  by (auto simp: initialize_def ensureDir_def report_def setEvents_def disk_loadEvents Let_def
      split: option.splits)

lemma initialized_initialize:
  "fst (initialize pf w) = Inr () \<Longrightarrow> initialized (store (snd (initialize pf w)))"
  by (auto simp: initialize_def ensureDir_def Let_def split: option.splits if_splits)

lemma getAllEvents_result:
  "fst (getAllEvents pf w) = Inr es \<longleftrightarrow>
     fst (initialize pf w) = Inr () \<and> events (store (snd (initialize pf w))) = es"
  by (cases "initialize pf w") (auto simp: getAllEvents_def withInit_def split: sum.splits)

lemma saveEvent_after_init:
  assumes "fst (initialize pf w) = Inr ()"
  shows "events (store (snd (saveEvent pf e w))) = events (store (snd (initialize pf w))) @ [e]"
    and "initialized (store (snd (saveEvent pf e w)))"
    and "fails (disk (snd (saveEvent pf e w))) = fails (disk w)"
    and "fst (saveEvent pf e w)
           = (if fails (disk w) AppendFile then Inl (IOError AppendFile) else Inr e)"
    and "fileContent (disk (snd (saveEvent pf e w)))
           = (if fails (disk w) AppendFile then fileContent (disk w)
              else Some ((case fileContent (disk w) of None \<Rightarrow> [] | Some c \<Rightarrow> c)
                          @ jsonStringify pf e @ [CHR 0x0A]))"
  using assms initialized_initialize[OF assms] fails_initialize[of pf w]
    fileContent_initialize[of pf w]
  by (cases "initialize pf w";
      simp add: saveEvent_def appendEventToFile_def appendText_def setEvents_def report_def
        Let_def)+

lemma saveEvents_after_init:
  assumes "fst (initialize pf w) = Inr ()"
  shows "events (store (snd (saveEvents pf es w))) = events (store (snd (initialize pf w))) @ es"
    and "initialized (store (snd (saveEvents pf es w)))"
    and "fails (disk (snd (saveEvents pf es w))) = fails (disk w)"
    and "fst (saveEvents pf es w)
           = (if fails (disk w) AppendFile then Inl (IOError AppendFile) else Inr es)"
    and "fileContent (disk (snd (saveEvents pf es w)))
           = (if fails (disk w) AppendFile then fileContent (disk w)
              else Some ((case fileContent (disk w) of None \<Rightarrow> [] | Some c \<Rightarrow> c)
                          @ joinLines (map (jsonStringify pf) es) @ [CHR 0x0A]))"
  using assms initialized_initialize[OF assms] fails_initialize[of pf w]
    fileContent_initialize[of pf w]
  by (cases "initialize pf w";
      simp add: saveEvents_def appendEventsToFile_def appendText_def setEvents_def report_def
        Let_def)+


lemmas store_defs = saveEvent_def saveEvents_def getAllEvents_def withInit_def initialize_def
  ensureDir_def loadEvents_def appendEventToFile_def appendEventsToFile_def appendText_def
  setEvents_def report_def Let_def

lemmas example_store_defs = freshWorld_def loadedWorld_def workingDisk_def fullDisk_def
  newFileEventStore_def examplePlatform_def exampleEvent_def createEvent_def emptyPayload_def

text \<open>
  C2 (as the code has it). When the store initialises and the append to the file fails,
  \<open>saveEvent\<close> and \<open>saveEvents\<close> raise the write error and leave the file as it was,
  and the events pushed before the write stay in the in-memory list: a later
  \<open>getAllEvents\<close> returns what it would have returned before the call, followed by them.
\<close>

theorem failed_append_keeps_event_in_memory:
  assumes "fst (getAllEvents pf w) = Inr before"
    and "fails (disk w) AppendFile"
  shows "fst (saveEvent pf e w) = Inl (IOError AppendFile)
       \<and> fileContent (disk (snd (saveEvent pf e w))) = fileContent (disk w)
       \<and> events (store (snd (saveEvent pf e w))) = before @ [e]
       \<and> fst (getAllEvents pf (snd (saveEvent pf e w))) = Inr (before @ [e])
       \<and> fst (saveEvents pf es w) = Inl (IOError AppendFile)
       \<and> fileContent (disk (snd (saveEvents pf es w))) = fileContent (disk w)
       \<and> events (store (snd (saveEvents pf es w))) = before @ es
       \<and> fst (getAllEvents pf (snd (saveEvents pf es w))) = Inr (before @ es)"
proof -
  from assms(1) have init: "fst (initialize pf w) = Inr ()"
    and before: "events (store (snd (initialize pf w))) = before"
    by (simp_all add: getAllEvents_result)
  have "fst (getAllEvents pf (snd (saveEvent pf e w))) = Inr (before @ [e])"
    using saveEvent_after_init(1,2)[OF init, of e] before
    by (simp add: getAllEvents_result initialize_initialized)
  moreover have "fst (getAllEvents pf (snd (saveEvents pf es w))) = Inr (before @ es)"
    using saveEvents_after_init(1,2)[OF init, of es] before
    by (simp add: getAllEvents_result initialize_initialized)
  ultimately show ?thesis
    using saveEvent_after_init[OF init, of e] saveEvents_after_init[OF init, of es] before assms(2)
    by simp
qed

theorem failed_append_keeps_event_in_memory_witness:
  "fst (getAllEvents examplePlatform (loadedWorld [exampleEvent ''a''] (fullDisk (Some ''a\<newline>''))))
     = Inr [exampleEvent ''a'']
   \<and> fails (disk (loadedWorld [exampleEvent ''a''] (fullDisk (Some ''a\<newline>'')))) AppendFile
   \<and> fst (getAllEvents examplePlatform
        (snd (saveEvents examplePlatform [exampleEvent ''b'', exampleEvent ''c'']
               (loadedWorld [exampleEvent ''a''] (fullDisk (Some ''a\<newline>''))))))
     = Inr [exampleEvent ''a'', exampleEvent ''b'', exampleEvent ''c'']"
proof -
  have r: "fst (getAllEvents examplePlatform (loadedWorld [exampleEvent ''a''] (fullDisk (Some ''a\<newline>''))))
     = Inr [exampleEvent ''a'']"
    by (simp add: store_defs example_store_defs)
  have f: "fails (disk (loadedWorld [exampleEvent ''a''] (fullDisk (Some ''a\<newline>'')))) AppendFile"
    by (simp add: example_store_defs)
  from failed_append_keeps_event_in_memory[OF r f, of "exampleEvent ''b''"
      "[exampleEvent ''b'', exampleEvent ''c'']"] r f
  show ?thesis by simp
qed

text \<open>
  On a disk whose append fails, \<open>saveEvent\<close> raises the error, and the read that
  returned no event before the call returns the event after it.
\<close>

theorem rollback_counterexample:
  "fst (getAllEvents examplePlatform (freshWorld (fullDisk None))) = Inr []
   \<and> fst (saveEvent examplePlatform (exampleEvent ''a'') (freshWorld (fullDisk None)))
       = Inl (IOError AppendFile)
   \<and> fst (getAllEvents examplePlatform
            (snd (saveEvent examplePlatform (exampleEvent ''a'') (freshWorld (fullDisk None)))))
       = Inr [exampleEvent ''a'']"
  by (simp add: store_defs example_store_defs)

lemmas trim_defs = trim_def trimStart_def trimEnd_def stripOne_def whiteSpace_def

lemma trim_Nil: "trim [] = []"
  by (simp add: trim_defs)

text \<open>A line that holds a no-break space and an ideographic space only is blank.\<close>

lemma trim_no_break_space: "trim [CHR 0xC2, CHR 0xA0, CHR 0xE3, CHR 0x80, CHR 0x80] = []"
  by (simp add: trim_defs)

lemma initialize_empty_log:
  assumes "\<not> initialized (store w)"
    and "fails (disk w) = (\<lambda>op. False)"
    and "case fileContent (disk w) of None \<Rightarrow> True | Some c \<Rightarrow> trim c = []"
  shows "fst (initialize pf w) = Inr ()" and "events (store (snd (initialize pf w))) = []"
  using assms
  by (auto simp: initialize_def ensureDir_def loadEvents_def setEvents_def Let_def
      trim_Nil split: option.splits)

text \<open>
  C6. On a new file store whose log file is absent or blank and whose disk works, saving
  \<open>e1\<close>, \<open>e2\<close>, \<open>e3\<close> one by one, or in one batch, succeeds and \<open>getAllEvents\<close> then
  returns exactly \<open>[e1, e2, e3]\<close>; the in-memory store does the same from its empty
  array.
\<close>

theorem save_then_getAllEvents_roundtrip:
  assumes "store w = newFileEventStore"
    and "fails (disk w) = (\<lambda>op. False)"
    and "case fileContent (disk w) of None \<Rightarrow> True | Some c \<Rightarrow> trim c = []"
  shows "fst (saveEvent pf e1 w) = Inr e1
       \<and> fst (saveEvent pf e2 (snd (saveEvent pf e1 w))) = Inr e2
       \<and> fst (saveEvent pf e3 (snd (saveEvent pf e2 (snd (saveEvent pf e1 w))))) = Inr e3
       \<and> fst (getAllEvents pf
               (snd (saveEvent pf e3 (snd (saveEvent pf e2 (snd (saveEvent pf e1 w)))))))
           = Inr [e1, e2, e3]
       \<and> fst (saveEvents pf [e1, e2, e3] w) = Inr [e1, e2, e3]
       \<and> fst (getAllEvents pf (snd (saveEvents pf [e1, e2, e3] w))) = Inr [e1, e2, e3]
       \<and> mem_getAllEvents
           (snd (mem_saveEvent e3 (snd (mem_saveEvent e2 (snd (mem_saveEvent e1 [])))))) 
           = [e1, e2, e3]
       \<and> mem_getAllEvents (snd (mem_saveEvents [e1, e2, e3] [])) = [e1, e2, e3]"
proof -
  have fresh: "\<not> initialized (store w)"
    using assms(1) by (simp add: newFileEventStore_def)
  note init = initialize_empty_log[OF fresh assms(2,3), of pf]
  define w1 where "w1 = snd (saveEvent pf e1 w)"
  define w2 where "w2 = snd (saveEvent pf e2 w1)"
  define w3 where "w3 = snd (saveEvent pf e3 w2)"
  define wb where "wb = snd (saveEvents pf [e1, e2, e3] w)"
  have s1: "fst (saveEvent pf e1 w) = Inr e1" "events (store w1) = [e1]"
    "initialized (store w1)" "fails (disk w1) = (\<lambda>op. False)"
    using saveEvent_after_init[OF init(1), of e1] init(2) assms(2) by (simp_all add: w1_def)
  have i1: "fst (initialize pf w1) = Inr ()" "snd (initialize pf w1) = w1"
    using s1(3) by (simp_all add: initialize_initialized)
  have s2: "fst (saveEvent pf e2 w1) = Inr e2" "events (store w2) = [e1, e2]"
    "initialized (store w2)" "fails (disk w2) = (\<lambda>op. False)"
    using saveEvent_after_init[OF i1(1), of e2] i1(2) s1 by (simp_all add: w2_def)
  have i2: "fst (initialize pf w2) = Inr ()" "snd (initialize pf w2) = w2"
    using s2(3) by (simp_all add: initialize_initialized)
  have s3: "fst (saveEvent pf e3 w2) = Inr e3" "events (store w3) = [e1, e2, e3]"
    "initialized (store w3)"
    using saveEvent_after_init[OF i2(1), of e3] i2(2) s2 by (simp_all add: w3_def)
  have g3: "fst (getAllEvents pf w3) = Inr [e1, e2, e3]"
    using s3 by (simp add: getAllEvents_result initialize_initialized)
  have sb: "fst (saveEvents pf [e1, e2, e3] w) = Inr [e1, e2, e3]"
    "events (store wb) = [e1, e2, e3]" "initialized (store wb)"
    using saveEvents_after_init[OF init(1), of "[e1, e2, e3]"] init(2) assms(2)
    by (simp_all add: wb_def)
  have gb: "fst (getAllEvents pf wb) = Inr [e1, e2, e3]"
    using sb by (simp add: getAllEvents_result initialize_initialized)
  show ?thesis
    using s1(1) s2(1) s3(1) g3 sb(1) gb
    by (simp add: w1_def w2_def w3_def wb_def mem_getAllEvents_def mem_saveEvent_def
        mem_saveEvents_def)
qed

theorem save_then_getAllEvents_roundtrip_witness:
  "store (freshWorld (workingDisk None)) = newFileEventStore
   \<and> fails (disk (freshWorld (workingDisk None))) = (\<lambda>op. False)
   \<and> fst (getAllEvents examplePlatform
        (snd (saveEvent examplePlatform (exampleEvent ''c'')
          (snd (saveEvent examplePlatform (exampleEvent ''b'')
            (snd (saveEvent examplePlatform (exampleEvent ''a'') (freshWorld (workingDisk None)))))))))
       = Inr [exampleEvent ''a'', exampleEvent ''b'', exampleEvent ''c'']
   \<and> fileContent (disk
        (snd (saveEvent examplePlatform (exampleEvent ''c'')
          (snd (saveEvent examplePlatform (exampleEvent ''b'')
            (snd (saveEvent examplePlatform (exampleEvent ''a'') (freshWorld (workingDisk None)))))))))
       = Some ''a\<newline>b\<newline>c\<newline>''"
proof -
  have h: "store (freshWorld (workingDisk None)) = newFileEventStore"
    "fails (disk (freshWorld (workingDisk None))) = (\<lambda>op. False)"
    "case fileContent (disk (freshWorld (workingDisk None))) of None \<Rightarrow> True | Some c \<Rightarrow> trim c = []"
    by (simp_all add: example_store_defs)
  have written: "fileContent (disk
        (snd (saveEvent examplePlatform (exampleEvent ''c'')
          (snd (saveEvent examplePlatform (exampleEvent ''b'')
            (snd (saveEvent examplePlatform (exampleEvent ''a'') (freshWorld (workingDisk None)))))))))
       = Some ''a\<newline>b\<newline>c\<newline>''"
    by (simp add: store_defs example_store_defs)
  from save_then_getAllEvents_roundtrip[OF h, of examplePlatform "exampleEvent ''a''"
      "exampleEvent ''b''" "exampleEvent ''c''"] h written
  show ?thesis by simp
qed

text \<open>
  C8 (as the code has it). \<open>saveEvent\<close> does not look at the event. On an initialised
  store with a working disk a dependency-added event is appended in memory and in the
  file and returned, whatever edges the log already holds, also when the new edge closes
  a cycle; the store has no cycle error.
\<close>

theorem saveEvent_appends_dependency_edge:
  assumes "initialized (store w)"
    and "fails (disk w) = (\<lambda>op. False)"
  shows "fst (saveEvent pf (createTaskDependencyAddedEvent uuid now a b) w)
           = Inr (createTaskDependencyAddedEvent uuid now a b)
       \<and> events (store (snd (saveEvent pf (createTaskDependencyAddedEvent uuid now a b) w)))
           = events (store w) @ [createTaskDependencyAddedEvent uuid now a b]
       \<and> fileContent (disk (snd (saveEvent pf (createTaskDependencyAddedEvent uuid now a b) w)))
           = Some ((case fileContent (disk w) of None \<Rightarrow> [] | Some c \<Rightarrow> c)
                    @ jsonStringify pf (createTaskDependencyAddedEvent uuid now a b) @ [CHR 0x0A])
       \<and> dependencyEdges
            (events (store (snd (saveEvent pf (createTaskDependencyAddedEvent uuid now a b) w))))
           = dependencyEdges (events (store w)) @ [(a, b)]"
proof -
  have init: "fst (initialize pf w) = Inr ()" "snd (initialize pf w) = w"
    using assms(1) by (simp_all add: initialize_initialized)
  have "edgeOf (createTaskDependencyAddedEvent uuid now a b) = Some (a, b)"
    by (simp add: edgeOf_def createTaskDependencyAddedEvent_def createEvent_def)
  then have "dependencyEdges (events (store w) @ [createTaskDependencyAddedEvent uuid now a b])
      = dependencyEdges (events (store w)) @ [(a, b)]"
    by (simp add: dependencyEdges_def map_filter_def)
  then show ?thesis
    using saveEvent_after_init[OF init(1), of "createTaskDependencyAddedEvent uuid now a b"]
      init(2) assms(2)
    by simp
qed

lemmas dependency_defs = dependencyLog_def createTaskDependencyAddedEvent_def createEvent_def
  emptyPayload_def TASK_DEPENDENCY_ADDED_def dependencyEdges_def edgeOf_def closesCycle_def
  map_filter_def

theorem saveEvent_appends_dependency_edge_witness:
  "initialized (store (loadedWorld dependencyLog (workingDisk (Some ''e1\<newline>e2\<newline>''))))
   \<and> fails (disk (loadedWorld dependencyLog (workingDisk (Some ''e1\<newline>e2\<newline>'')))) = (\<lambda>op. False)
   \<and> closesCycle (dependencyEdges dependencyLog) (''T2'', ''T1'')
   \<and> dependencyEdges (events (store (snd (saveEvent examplePlatform
          (createTaskDependencyAddedEvent ''e3'' ''2025-01-01T11:00:00.000Z'' ''T2'' ''T1'')
          (loadedWorld dependencyLog (workingDisk (Some ''e1\<newline>e2\<newline>'')))))))
       = [(''T1'', ''T2''), (''T2'', ''T3''), (''T2'', ''T1'')]"
proof -
  have h: "initialized (store (loadedWorld dependencyLog (workingDisk (Some ''e1\<newline>e2\<newline>''))))"
    "fails (disk (loadedWorld dependencyLog (workingDisk (Some ''e1\<newline>e2\<newline>'')))) = (\<lambda>op. False)"
    by (simp_all add: example_store_defs)
  have c: "closesCycle (dependencyEdges dependencyLog) (''T2'', ''T1'')"
    "dependencyEdges dependencyLog = [(''T1'', ''T2''), (''T2'', ''T3'')]"
    "events (store (loadedWorld dependencyLog (workingDisk (Some ''e1\<newline>e2\<newline>'')))) = dependencyLog"
    by (simp_all add: dependency_defs loadedWorld_def numeral_2_eq_2)
  from saveEvent_appends_dependency_edge[OF h, of examplePlatform "''e3''"
      "''2025-01-01T11:00:00.000Z''" "''T2''" "''T1''"]
  have "dependencyEdges (events (store (snd (saveEvent examplePlatform
          (createTaskDependencyAddedEvent ''e3'' ''2025-01-01T11:00:00.000Z'' ''T2'' ''T1'')
          (loadedWorld dependencyLog (workingDisk (Some ''e1\<newline>e2\<newline>'')))))))
       = dependencyEdges (events (store (loadedWorld dependencyLog
            (workingDisk (Some ''e1\<newline>e2\<newline>''))))) @ [(''T2'', ''T1'')]"
    by blast
  with h c show ?thesis by simp
qed

text \<open>
  The log holds the edges T1 to T2 and T2 to T3. The event for the edge T3 to T1, which
  closes a cycle, is saved: it is returned, and the log and the file grow by it.
\<close>

theorem cycle_rejection_counterexample:
  "dependencyEdges dependencyLog = [(''T1'', ''T2''), (''T2'', ''T3'')]
   \<and> closesCycle (dependencyEdges dependencyLog) (''T3'', ''T1'')
   \<and> fst (saveEvent examplePlatform
            (createTaskDependencyAddedEvent ''e3'' ''2025-01-01T11:00:00.000Z'' ''T3'' ''T1'')
            (loadedWorld dependencyLog (workingDisk (Some ''e1\<newline>e2\<newline>''))))
       = Inr (createTaskDependencyAddedEvent ''e3'' ''2025-01-01T11:00:00.000Z'' ''T3'' ''T1'')
   \<and> events (store (snd (saveEvent examplePlatform
            (createTaskDependencyAddedEvent ''e3'' ''2025-01-01T11:00:00.000Z'' ''T3'' ''T1'')
            (loadedWorld dependencyLog (workingDisk (Some ''e1\<newline>e2\<newline>''))))))
       = dependencyLog
           @ [createTaskDependencyAddedEvent ''e3'' ''2025-01-01T11:00:00.000Z'' ''T3'' ''T1'']
   \<and> fileContent (disk (snd (saveEvent examplePlatform
            (createTaskDependencyAddedEvent ''e3'' ''2025-01-01T11:00:00.000Z'' ''T3'' ''T1'')
            (loadedWorld dependencyLog (workingDisk (Some ''e1\<newline>e2\<newline>''))))))
       = Some ''e1\<newline>e2\<newline>e3\<newline>''"
  by (simp add: store_defs example_store_defs dependency_defs numeral_2_eq_2)

lemma parseAll_Some: "parseAll parse ls = Some es \<longleftrightarrow> map parse ls = map Some es"
proof (induction ls arbitrary: es)
  case Nil
  show ?case by auto
next
  case (Cons l ls)
  show ?case
    by (cases es) (auto simp: Cons.IH split: option.splits dest: Cons.IH[THEN iffD2])
qed

lemma parseAll_None: "parseAll parse ls = None \<longleftrightarrow> (\<exists>l \<in> set ls. parse l = None)"
  by (induction ls) (auto split: option.splits)

text \<open>
  C3 (as the code has it). Loading a log file that can be read: when every non-blank line
  parses, the in-memory list is the parsed events in file order and nothing is reported;
  when some line fails to parse, the failure is reported once and the in-memory list is
  set to empty, the valid lines included. In both cases the file is left as it is and the
  initialisation of a new store on a working disk completes.
\<close>

theorem loadEvents_all_or_nothing:
  assumes "\<not> fails (disk w) ReadFile"
    and "fileContent (disk w) = Some content"
    and "ls = filter (\<lambda>line. trim line \<noteq> []) (splitLines (trim content))"
  shows "((\<forall>l \<in> set ls. jsonParse pf l \<noteq> None) \<longrightarrow>
            map Some (events (store (loadEvents pf w))) = map (jsonParse pf) ls
            \<and> console (loadEvents pf w) = console w)
       \<and> ((\<exists>l \<in> set ls. jsonParse pf l = None) \<longrightarrow>
            events (store (loadEvents pf w)) = []
            \<and> console (loadEvents pf w) = console w @ [LoadFailed])
       \<and> disk (loadEvents pf w) = disk w
       \<and> (\<not> initialized (store w) \<and> fails (disk w) = (\<lambda>op. False) \<longrightarrow>
            fst (initialize pf w) = Inr ()
            \<and> events (store (snd (initialize pf w))) = events (store (loadEvents pf w)))"
proof (intro conjI impI)
  assume "\<forall>l \<in> set ls. jsonParse pf l \<noteq> None"
  then obtain es where es: "parseAll (jsonParse pf) ls = Some es"
    using parseAll_None[of "jsonParse pf" ls] by (cases "parseAll (jsonParse pf) ls") auto
  then have "loadEvents pf w = setEvents es w"
    using assms by (simp add: loadEvents_def Let_def)
  then show "map Some (events (store (loadEvents pf w))) = map (jsonParse pf) ls"
    and "console (loadEvents pf w) = console w"
    using es by (simp_all add: setEvents_def parseAll_Some)
next
  assume "\<exists>l \<in> set ls. jsonParse pf l = None"
  then have "parseAll (jsonParse pf) ls = None"
    by (simp add: parseAll_None)
  then have "loadEvents pf w = setEvents [] (report LoadFailed w)"
    using assms by (simp add: loadEvents_def Let_def)
  then show "events (store (loadEvents pf w)) = []"
    and "console (loadEvents pf w) = console w @ [LoadFailed]"
    by (simp_all add: setEvents_def report_def)
next
  show "disk (loadEvents pf w) = disk w"
    by (rule disk_loadEvents)
next
  assume h: "\<not> initialized (store w) \<and> fails (disk w) = (\<lambda>op. False)"
  then have "ensureDir w = (Inr (), w) \<or> ensureDir w = (Inr (), w\<lparr>disk := (disk w)\<lparr>dirExists := True\<rparr>\<rparr>)"
    by (simp add: ensureDir_def)
  then show "fst (initialize pf w) = Inr ()"
    and "events (store (snd (initialize pf w))) = events (store (loadEvents pf w))"
    using h assms(2)
    by (auto simp: initialize_def Let_def loadEvents_def setEvents_def report_def
        split: option.splits)
qed

theorem loadEvents_all_or_nothing_witness:
  "splitLines (trim ''a\<newline>b\<newline>'') = [''a'', ''b'']
   \<and> fst (getAllEvents examplePlatform (freshWorld (workingDisk (Some ''a\<newline>b\<newline>''))))
       = Inr [exampleEvent ''a'', exampleEvent ''b'']
   \<and> splitLines (trim ''a\<newline>corrupt\<newline>b\<newline>'') = [''a'', ''corrupt'', ''b'']
   \<and> events (store (loadEvents examplePlatform
         (freshWorld (workingDisk (Some ''a\<newline>corrupt\<newline>b\<newline>''))))) = []
   \<and> console (loadEvents examplePlatform
         (freshWorld (workingDisk (Some ''a\<newline>corrupt\<newline>b\<newline>'')))) = [LoadFailed]"
proof -
  have good: "filter (\<lambda>line. trim line \<noteq> []) (splitLines (trim ''a\<newline>b\<newline>'')) = [''a'', ''b'']"
    "splitLines (trim ''a\<newline>b\<newline>'') = [''a'', ''b'']"
    by (simp_all add: trim_defs)
  have bad: "filter (\<lambda>line. trim line \<noteq> []) (splitLines (trim ''a\<newline>corrupt\<newline>b\<newline>''))
      = [''a'', ''corrupt'', ''b'']"
    "splitLines (trim ''a\<newline>corrupt\<newline>b\<newline>'') = [''a'', ''corrupt'', ''b'']"
    by (simp_all add: trim_defs)
  have d: "\<not> fails (disk (freshWorld (workingDisk c))) ReadFile"
    "fileContent (disk (freshWorld (workingDisk (Some t)))) = Some t"
    "\<not> initialized (store (freshWorld (workingDisk c)))"
    "fails (disk (freshWorld (workingDisk c))) = (\<lambda>op. False)"
    "console (freshWorld (workingDisk c)) = []"
    for c t
    by (simp_all add: example_store_defs)
  have p: "jsonParse examplePlatform ''a'' = Some (exampleEvent ''a'')"
    "jsonParse examplePlatform ''b'' = Some (exampleEvent ''b'')"
    "jsonParse examplePlatform ''corrupt'' = None"
    by (simp_all add: examplePlatform_def)
  from loadEvents_all_or_nothing[OF d(1) d(2) good(1)[symmetric], of examplePlatform]
  have "fst (getAllEvents examplePlatform (freshWorld (workingDisk (Some ''a\<newline>b\<newline>''))))
       = Inr [exampleEvent ''a'', exampleEvent ''b'']"
    using d p by (auto simp: getAllEvents_result)
  moreover
  from loadEvents_all_or_nothing[OF d(1) d(2) bad(1)[symmetric], of examplePlatform]
  have "events (store (loadEvents examplePlatform
         (freshWorld (workingDisk (Some ''a\<newline>corrupt\<newline>b\<newline>''))))) = []
     \<and> console (loadEvents examplePlatform
         (freshWorld (workingDisk (Some ''a\<newline>corrupt\<newline>b\<newline>'')))) = [LoadFailed]"
    using d p by simp
  ultimately show ?thesis
    using good bad by simp
qed

text \<open>
  A file of three lines of which the first and the third parse: the store initialises,
  reports the failure and reads as empty.
\<close>

theorem corrupt_line_counterexample:
  "map (jsonParse examplePlatform) (splitLines (trim ''a\<newline>corrupt\<newline>b\<newline>''))
     = [Some (exampleEvent ''a''), None, Some (exampleEvent ''b'')]
   \<and> getAllEvents examplePlatform (freshWorld (workingDisk (Some ''a\<newline>corrupt\<newline>b\<newline>'')))
     = (Inr [],
        \<lparr> store = \<lparr> events = [], initialized = True \<rparr>,
          disk = workingDisk (Some ''a\<newline>corrupt\<newline>b\<newline>''),
          console = [LoadFailed] \<rparr>)"
  by (simp add: store_defs example_store_defs trim_defs)

section \<open>Properties of the reads\<close>

lemma deref_filter: "deref h (filter (holds h P) rs) = filter P (deref h rs)"
  by (induction rs) (auto simp: deref_def map_filter_def holds_def split: option.splits)

lemma alloc_copy:
  assumes "eventsArray h < nextAddr h"
  shows "fst (allocArray rs h) \<noteq> eventsArray h"
    and "storeView (snd (allocArray rs h)) = storeView h"
    and "storeView (arrayWrite (fst (allocArray rs h)) rs' (snd (allocArray rs h))) = storeView h"
    and "arrayView (snd (allocArray rs h)) (fst (allocArray rs h)) = deref h rs"
    and "arrayElems (snd (allocArray rs h)) (fst (allocArray rs h)) = rs"
  using assms
  by (simp_all add: allocArray_def elems_def arrayElems_def storeView_def arrayWrite_def
      arrayView_def deref_def)

lemma find_in_set: "List.find P xs = Some x \<Longrightarrow> x \<in> set xs"
  by (induction xs) (auto split: if_splits)

lemma deref_objectWrite: "r \<in> set rs \<Longrightarrow> e \<in> set (deref (objectWrite r e h) rs)"
  by (induction rs) (auto simp: deref_def map_filter_def objectWrite_def)

text \<open>
  C9 (as the code has it). With the store's array allocated, each read that returns an
  array returns a newly allocated one that stands for the selected events of the store:
  whatever the caller stores in that array, the store's list is as before. The elements
  of the returned arrays and the result of \<open>getEventById\<close> are addresses of the store's
  own event objects: an assignment to such an object shows in the store's list.
\<close>

theorem reads_copy_arrays_share_events:
  assumes "eventsArray h < nextAddr h"
  shows "fst (obj_getAllEvents h) \<noteq> eventsArray h
       \<and> arrayView (snd (obj_getAllEvents h)) (fst (obj_getAllEvents h)) = storeView h
       \<and> storeView (arrayWrite (fst (obj_getAllEvents h)) rs (snd (obj_getAllEvents h)))
           = storeView h
       \<and> fst (obj_getEventsByEntityId entityId h) \<noteq> eventsArray h
       \<and> arrayView (snd (obj_getEventsByEntityId entityId h)) (fst (obj_getEventsByEntityId entityId h))
           = filter (concernsEntity entityId) (storeView h)
       \<and> storeView (arrayWrite (fst (obj_getEventsByEntityId entityId h)) rs
                      (snd (obj_getEventsByEntityId entityId h))) = storeView h
       \<and> fst (obj_getEventsByTimeRange gt t1 t2 h) \<noteq> eventsArray h
       \<and> arrayView (snd (obj_getEventsByTimeRange gt t1 t2 h)) (fst (obj_getEventsByTimeRange gt t1 t2 h))
           = filter (inTimeRange gt t1 t2) (storeView h)
       \<and> storeView (arrayWrite (fst (obj_getEventsByTimeRange gt t1 t2 h)) rs
                      (snd (obj_getEventsByTimeRange gt t1 t2 h))) = storeView h
       \<and> fst (obj_getEventsByType ty h) \<noteq> eventsArray h
       \<and> arrayView (snd (obj_getEventsByType ty h)) (fst (obj_getEventsByType ty h))
           = filter (\<lambda>e. eventType e = ty) (storeView h)
       \<and> storeView (arrayWrite (fst (obj_getEventsByType ty h)) rs (snd (obj_getEventsByType ty h)))
           = storeView h
       \<and> (\<forall>r. obj_getEventById eid h = Some r
              \<or> r \<in> set (arrayElems (snd (obj_getAllEvents h)) (fst (obj_getAllEvents h)))
              \<or> r \<in> set (arrayElems (snd (obj_getEventsByEntityId entityId h))
                                     (fst (obj_getEventsByEntityId entityId h)))
              \<or> r \<in> set (arrayElems (snd (obj_getEventsByTimeRange gt t1 t2 h))
                                     (fst (obj_getEventsByTimeRange gt t1 t2 h)))
              \<or> r \<in> set (arrayElems (snd (obj_getEventsByType ty h)) (fst (obj_getEventsByType ty h)))
              \<longrightarrow>
             r \<in> set (elems h) \<and> e \<in> set (storeView (objectWrite r e h)))"
proof -
  note all = alloc_copy[OF assms, of "elems h"]
  note ent = alloc_copy[OF assms, of "filter (holds h (concernsEntity entityId)) (elems h)"]
  note rng = alloc_copy[OF assms, of "filter (holds h (inTimeRange gt t1 t2)) (elems h)"]
  note bytype = alloc_copy[OF assms, of "filter (holds h (\<lambda>e. eventType e = ty)) (elems h)"]
  have a: "fst (obj_getAllEvents h) \<noteq> eventsArray h"
    "arrayView (snd (obj_getAllEvents h)) (fst (obj_getAllEvents h)) = storeView h"
    "storeView (arrayWrite (fst (obj_getAllEvents h)) rs (snd (obj_getAllEvents h))) = storeView h"
    unfolding obj_getAllEvents_def using all by (simp_all add: storeView_def)
  have b: "fst (obj_getEventsByEntityId entityId h) \<noteq> eventsArray h"
    "arrayView (snd (obj_getEventsByEntityId entityId h)) (fst (obj_getEventsByEntityId entityId h))
           = filter (concernsEntity entityId) (storeView h)"
    "storeView (arrayWrite (fst (obj_getEventsByEntityId entityId h)) rs
                      (snd (obj_getEventsByEntityId entityId h))) = storeView h"
    unfolding obj_getEventsByEntityId_def using ent by (simp_all add: storeView_def deref_filter)
  have c: "fst (obj_getEventsByTimeRange gt t1 t2 h) \<noteq> eventsArray h"
    "arrayView (snd (obj_getEventsByTimeRange gt t1 t2 h)) (fst (obj_getEventsByTimeRange gt t1 t2 h))
           = filter (inTimeRange gt t1 t2) (storeView h)"
    "storeView (arrayWrite (fst (obj_getEventsByTimeRange gt t1 t2 h)) rs
                      (snd (obj_getEventsByTimeRange gt t1 t2 h))) = storeView h"
    unfolding obj_getEventsByTimeRange_def using rng by (simp_all add: storeView_def deref_filter)
  have d: "fst (obj_getEventsByType ty h) \<noteq> eventsArray h"
    "arrayView (snd (obj_getEventsByType ty h)) (fst (obj_getEventsByType ty h))
           = filter (\<lambda>e. eventType e = ty) (storeView h)"
    "storeView (arrayWrite (fst (obj_getEventsByType ty h)) rs (snd (obj_getEventsByType ty h)))
           = storeView h"
    unfolding obj_getEventsByType_def using bytype by (simp_all add: storeView_def deref_filter)
  have own: "r \<in> set (elems h) \<and> e \<in> set (storeView (objectWrite r e h))"
    if r: "obj_getEventById eid h = Some r
              \<or> r \<in> set (arrayElems (snd (obj_getAllEvents h)) (fst (obj_getAllEvents h)))
              \<or> r \<in> set (arrayElems (snd (obj_getEventsByEntityId entityId h))
                                     (fst (obj_getEventsByEntityId entityId h)))
              \<or> r \<in> set (arrayElems (snd (obj_getEventsByTimeRange gt t1 t2 h))
                                     (fst (obj_getEventsByTimeRange gt t1 t2 h)))
              \<or> r \<in> set (arrayElems (snd (obj_getEventsByType ty h)) (fst (obj_getEventsByType ty h)))"
    for r
  proof -
    from r have "r \<in> set (elems h)"
    proof (elim disjE)
      assume "obj_getEventById eid h = Some r"
      then show ?thesis unfolding obj_getEventById_def by (rule find_in_set)
    next
      assume "r \<in> set (arrayElems (snd (obj_getAllEvents h)) (fst (obj_getAllEvents h)))"
      then show ?thesis unfolding obj_getAllEvents_def using all(5) by simp
    next
      assume "r \<in> set (arrayElems (snd (obj_getEventsByEntityId entityId h))
                                     (fst (obj_getEventsByEntityId entityId h)))"
      then show ?thesis unfolding obj_getEventsByEntityId_def using ent(5) by simp
    next
      assume "r \<in> set (arrayElems (snd (obj_getEventsByTimeRange gt t1 t2 h))
                                     (fst (obj_getEventsByTimeRange gt t1 t2 h)))"
      then show ?thesis unfolding obj_getEventsByTimeRange_def using rng(5) by simp
    next
      assume "r \<in> set (arrayElems (snd (obj_getEventsByType ty h)) (fst (obj_getEventsByType ty h)))"
      then show ?thesis unfolding obj_getEventsByType_def using bytype(5) by simp
    qed
    moreover have "elems (objectWrite r e h) = elems h"
      by (simp add: elems_def arrayElems_def objectWrite_def)
    ultimately show ?thesis
      by (simp add: storeView_def deref_objectWrite)
  qed
  from a b c d own show ?thesis
    by blast
qed

lemmas heap_defs = obj_getAllEvents_def obj_getEventById_def obj_getEventsByType_def allocArray_def
  arrayElems_def elems_def holds_def deref_def map_filter_def storeView_def arrayView_def
  arrayWrite_def objectWrite_def exampleHeap_def

theorem reads_copy_arrays_share_events_witness:
  "eventsArray exampleHeap < nextAddr exampleHeap
   \<and> storeView exampleHeap = [exampleEvent ''a'']
   \<and> fst (obj_getAllEvents exampleHeap) = 2
   \<and> storeView (arrayWrite 2 [] (snd (obj_getAllEvents exampleHeap))) = [exampleEvent ''a'']
   \<and> obj_getEventById ''a'' exampleHeap = Some 0
   \<and> tampered \<in> set (storeView (objectWrite 0 tampered exampleHeap))"
proof -
  have h: "eventsArray exampleHeap < nextAddr exampleHeap"
    by (simp add: exampleHeap_def)
  have v: "storeView exampleHeap = [exampleEvent ''a'']"
    "fst (obj_getAllEvents exampleHeap) = 2"
    "obj_getEventById ''a'' exampleHeap = Some 0"
    by (simp_all add: heap_defs exampleEvent_def createEvent_def)
  from reads_copy_arrays_share_events[OF h, of "[]" "''P''" exampleGetTime "[]" "[]" "[]"
      "''a''" tampered] h v
  show ?thesis by simp
qed

text \<open>
  The arrays returned by the reads hold address 0, the address of the store's own event
  object, as does the result of \<open>getEventById\<close>; after an assignment through that address
  the store reads as the changed event.
\<close>

theorem defensive_copy_counterexample:
  "storeView exampleHeap = [exampleEvent ''a'']
   \<and> obj_getEventById ''a'' exampleHeap = Some 0
   \<and> arrayElems (snd (obj_getAllEvents exampleHeap)) (fst (obj_getAllEvents exampleHeap)) = [0]
   \<and> arrayElems (snd (obj_getEventsByType ''task_created'' exampleHeap))
        (fst (obj_getEventsByType ''task_created'' exampleHeap)) = [0]
   \<and> storeView (objectWrite 0 tampered (snd (obj_getAllEvents exampleHeap))) = [tampered]
   \<and> tampered \<noteq> exampleEvent ''a''"
  by (simp add: heap_defs exampleEvent_def createEvent_def tampered_def)

section \<open>Properties of the emitter\<close>

lemma indexOf_splice_remove1:
  "(case indexOf l x of None \<Rightarrow> l | Some i \<Rightarrow> spliceOne i l) = remove1 x l"
  by (induction l) (auto simp: spliceOne_def split: option.splits)

lemma indexOf_None: "indexOf l x = None \<longleftrightarrow> x \<notin> set l"
  by (induction l) auto

lemma registered_on: "registered ev (on ev h hs) = registered ev hs @ [h]"
  by (simp add: registered_def on_def Let_def split: option.splits)

lemma registered_on_other: "ev' \<noteq> ev \<Longrightarrow> registered ev' (on ev h hs) = registered ev' hs"
  by (simp add: registered_def on_def Let_def)

lemma registered_off: "registered ev (off ev h hs) = remove1 h (registered ev hs)"
proof (cases "hs ev")
  case None
  then show ?thesis by (simp add: registered_def off_def)
next
  case (Some l)
  show ?thesis
  proof (cases "indexOf l h")
    case None
    then have "h \<notin> set l"
      by (simp add: indexOf_None)
    with None \<open>hs ev = Some l\<close> show ?thesis
      by (simp add: registered_def off_def remove1_idem)
  next
    case (Some i)
    with \<open>hs ev = Some l\<close> indexOf_splice_remove1[of l h] show ?thesis
      by (simp add: registered_def off_def)
  qed
qed

lemma registered_off_other: "ev' \<noteq> ev \<Longrightarrow> registered ev' (off ev h hs) = registered ev' hs"
  by (simp add: registered_def off_def split: option.splits)

lemma count_list_remove1: "count_list (remove1 x l) x = count_list l x - 1"
  by (induction l) auto

lemma count_list_0: "count_list l x = 0 \<longleftrightarrow> x \<notin> set l"
  by (induction l) auto

lemma emitFrom_end:
  "length (registered event (handlers s)) \<le> i \<Longrightarrow>
   emitFrom n behave event data i s = (Some (Inr ()), s)"
  by (subst emitFrom.simps) (simp add: Let_def)

text \<open>The loop over handlers that return and leave the emitter alone: from index \<open>i\<close>
  on, every registration is called once, in order, when the units suffice.\<close>

lemma emitFrom_quiet:
  assumes "\<forall>h \<in> set (registered event (handlers s)). quiet behave data h"
    and "length (registered event (handlers s)) - i = k"
    and "k \<le> n"
  shows "\<exists>w. emitFrom n behave event data i s
           = (Some (Inr ()),
              s\<lparr>outside := w,
                invoked := invoked s
                  @ map (\<lambda>h. (h, data)) (drop i (registered event (handlers s)))\<rparr>)"
  using assms
proof (induction k arbitrary: i s n)
  case 0
  then have "emitFrom n behave event data i s = (Some (Inr ()), s)"
    by (simp add: emitFrom_end)
  moreover have "s\<lparr>outside := outside s,
                   invoked := invoked s
                     @ map (\<lambda>h. (h, data)) (drop i (registered event (handlers s)))\<rparr> = s"
    using 0 by simp
  ultimately show ?case
    by metis
next
  case (Suc k)
  define l where "l = registered event (handlers s)"
  from Suc.prems have i: "i < length l"
    by (simp add: l_def)
  from Suc.prems obtain m where n: "n = Suc m" and m: "k \<le> m"
    by (cases n) auto
  from Suc.prems i have "quiet behave data (l ! i)"
    by (simp add: l_def)
  then obtain w1 where w1: "behave (l ! i) data (outside s) = Returns w1 []"
    unfolding quiet_def by blast
  define s1 where "s1 = s\<lparr>outside := w1, invoked := invoked s @ [(l ! i, data)]\<rparr>"
  have h1: "handlers s1 = handlers s"
    by (simp add: s1_def)
  have step: "emitFrom n behave event data i s = emitFrom m behave event data (Suc i) s1"
    using i w1 by (subst emitFrom.simps) (simp add: Let_def l_def[symmetric] n s1_def)
  have "\<exists>w. emitFrom m behave event data (Suc i) s1
           = (Some (Inr ()),
              s1\<lparr>outside := w,
                 invoked := invoked s1
                   @ map (\<lambda>h. (h, data)) (drop (Suc i) (registered event (handlers s1)))\<rparr>)"
  proof (rule Suc.IH)
    show "\<forall>h \<in> set (registered event (handlers s1)). quiet behave data h"
      using Suc.prems(1) by (simp add: h1)
    show "length (registered event (handlers s1)) - Suc i = k"
      using Suc.prems(2) by (simp add: h1)
    show "k \<le> m"
      by (rule m)
  qed
  then obtain w where w: "emitFrom m behave event data (Suc i) s1
           = (Some (Inr ()),
              s1\<lparr>outside := w,
                 invoked := invoked s1 @ map (\<lambda>h. (h, data)) (drop (Suc i) l)\<rparr>)"
    by (auto simp: h1 l_def)
  have "drop i l = l ! i # drop (Suc i) l"
    using i by (simp add: Cons_nth_drop_Suc)
  then have "s1\<lparr>outside := w,
                 invoked := invoked s1 @ map (\<lambda>h. (h, data)) (drop (Suc i) l)\<rparr>
           = s\<lparr>outside := w, invoked := invoked s @ map (\<lambda>h. (h, data)) (drop i l)\<rparr>"
    by (simp add: s1_def)
  with step w show ?case
    unfolding l_def by metis
qed

text \<open>
  C10 (as the code has it). When every handler registered for the name returns and calls
  neither \<open>on\<close>, \<open>off\<close> nor \<open>emit\<close>, \<open>emit\<close> returns after calling the
  registrations of the name, in the order of their \<open>on\<close> calls, each once with the
  data, and leaves the table as it was. For a name without registrations \<open>emit\<close> does
  nothing, whatever the handlers do. \<open>on\<close> adds a registration at the end, also for a
  handler that is already registered; \<open>off\<close> removes the earliest registration of the
  handler and leaves all other names alone. So an \<open>emit\<close> after \<open>off\<close> calls the
  handler once less than it was registered: not at all when it was registered at most
  once.
\<close>

theorem emit_calls_registrations_of_quiet_handlers:
  "((\<forall>g \<in> set (registered event (handlers s)). quiet behave data g)
      \<and> length (registered event (handlers s)) \<le> n
     \<longrightarrow> (\<exists>w. emit n behave event data s
              = (Some (Inr ()),
                 s\<lparr>outside := w,
                   invoked := invoked s
                     @ map (\<lambda>g. (g, data)) (registered event (handlers s))\<rparr>))
       \<and> (\<exists>w. emit n behave event data (s\<lparr>handlers := off event h (handlers s)\<rparr>)
              = (Some (Inr ()),
                 s\<lparr>handlers := off event h (handlers s), outside := w,
                   invoked := invoked s
                     @ map (\<lambda>g. (g, data)) (remove1 h (registered event (handlers s)))\<rparr>)))
   \<and> (registered event (handlers s) = [] \<longrightarrow> emit n behave event data s = (Some (Inr ()), s))
   \<and> registered event (on event h (handlers s)) = registered event (handlers s) @ [h]
   \<and> registered event (off event h (handlers s)) = remove1 h (registered event (handlers s))
   \<and> (event' \<noteq> event \<longrightarrow>
        registered event' (on event h (handlers s)) = registered event' (handlers s)
        \<and> registered event' (off event h (handlers s)) = registered event' (handlers s))
   \<and> count_list (remove1 h (registered event (handlers s))) h
        = count_list (registered event (handlers s)) h - 1
   \<and> (count_list (registered event (handlers s)) h \<le> 1
        \<longrightarrow> h \<notin> set (remove1 h (registered event (handlers s))))"
proof -
  let ?l = "registered event (handlers s)"
  let ?s' = "s\<lparr>handlers := off event h (handlers s)\<rparr>"
  have loop: "\<exists>w. emit n behave event data s
              = (Some (Inr ()), s\<lparr>outside := w, invoked := invoked s @ map (\<lambda>g. (g, data)) ?l\<rparr>)"
    if q: "\<forall>g \<in> set ?l. quiet behave data g" and n: "length ?l \<le> n"
    using emitFrom_quiet[of event s behave data 0 "length ?l" n] q n
    by (simp add: emit_def)
  have loop': "\<exists>w. emit n behave event data ?s'
              = (Some (Inr ()),
                 s\<lparr>handlers := off event h (handlers s), outside := w,
                   invoked := invoked s @ map (\<lambda>g. (g, data)) (remove1 h ?l)\<rparr>)"
    if q: "\<forall>g \<in> set ?l. quiet behave data g" and n: "length ?l \<le> n"
  proof -
    have r: "registered event (handlers ?s') = remove1 h ?l"
      by (simp add: registered_off)
    have "\<forall>g \<in> set (registered event (handlers ?s')). quiet behave data g"
      unfolding r using q notin_set_remove1 by fast
    moreover have "length (registered event (handlers ?s')) \<le> n"
      unfolding r using n by (auto simp: length_remove1)
    ultimately have "\<exists>w. emitFrom n behave event data 0 ?s'
           = (Some (Inr ()),
              ?s'\<lparr>outside := w,
                invoked := invoked ?s'
                  @ map (\<lambda>g. (g, data)) (drop 0 (registered event (handlers ?s')))\<rparr>)"
      by (intro emitFrom_quiet[where k = "length (registered event (handlers ?s'))"]) simp_all
    then show ?thesis
      unfolding r by (simp add: emit_def)
  qed
  have none: "emit n behave event data s = (Some (Inr ()), s)" if "?l = []"
    using that by (simp add: emit_def emitFrom_end)
  have gone: "h \<notin> set (remove1 h ?l)" if "count_list ?l h \<le> 1"
  proof -
    have "count_list (remove1 h ?l) h = 0"
      using that unfolding count_list_remove1 by arith
    then show ?thesis
      using count_list_0[of "remove1 h ?l" h] by blast
  qed
  from loop loop' none gone show ?thesis
    using registered_on[of event h "handlers s"] registered_off[of event h "handlers s"]
      registered_on_other[of event' event h "handlers s"]
      registered_off_other[of event' event h "handlers s"]
      count_list_remove1[of h ?l]
    by blast
qed

lemmas emitter_defs = emit_def on_def off_def registered_def newEmitter_def spliceOne_def
  tickEmitter_def exampleBehave_def Let_def

theorem emit_calls_registrations_of_quiet_handlers_witness:
  "registered ''tick'' (handlers (tickEmitter [1, 2])) = [1, 2]
   \<and> quiet exampleBehave ''data'' 1 \<and> quiet exampleBehave ''data'' 2
   \<and> emit 2 exampleBehave ''tick'' ''data'' (tickEmitter [1, 2])
       = (Some (Inr ()),
          (tickEmitter [1, 2])\<lparr>outside := 2, invoked := [(1, ''data''), (2, ''data'')]\<rparr>)
   \<and> registered ''tock'' (handlers (tickEmitter [1, 2])) = []
   \<and> emit 2 exampleBehave ''tock'' ''data'' (tickEmitter [1, 2])
       = (Some (Inr ()), tickEmitter [1, 2])
   \<and> emit 2 exampleBehave ''tick'' ''data''
        ((tickEmitter [1, 2])\<lparr>handlers := off ''tick'' 1 (handlers (tickEmitter [1, 2]))\<rparr>)
       = (Some (Inr ()),
          (tickEmitter [1, 2])\<lparr>handlers := off ''tick'' 1 (handlers (tickEmitter [1, 2])),
                                outside := 1, invoked := [(2, ''data'')]\<rparr>)"
proof -
  have r: "registered ''tick'' (handlers (tickEmitter [1, 2])) = [1, 2]"
    "registered ''tock'' (handlers (tickEmitter [1, 2])) = []"
    by (simp_all add: emitter_defs)
  have q: "quiet exampleBehave ''data'' 1" "quiet exampleBehave ''data'' 2"
    by (simp_all add: quiet_def exampleBehave_def)
  have e: "emit 2 exampleBehave ''tick'' ''data'' (tickEmitter [1, 2])
       = (Some (Inr ()),
          (tickEmitter [1, 2])\<lparr>outside := 2, invoked := [(1, ''data''), (2, ''data'')]\<rparr>)"
    "emit 2 exampleBehave ''tock'' ''data'' (tickEmitter [1, 2])
       = (Some (Inr ()), tickEmitter [1, 2])"
    "emit 2 exampleBehave ''tick'' ''data''
        ((tickEmitter [1, 2])\<lparr>handlers := off ''tick'' 1 (handlers (tickEmitter [1, 2]))\<rparr>)
       = (Some (Inr ()),
          (tickEmitter [1, 2])\<lparr>handlers := off ''tick'' 1 (handlers (tickEmitter [1, 2])),
                                outside := 1, invoked := [(2, ''data'')]\<rparr>)"
    by (simp_all add: emitter_defs emitFrom.simps)
  from emit_calls_registrations_of_quiet_handlers[of "''tick''" "tickEmitter [1, 2]"
         exampleBehave "''data''" 2 1 "''tock''"]
       emit_calls_registrations_of_quiet_handlers[of "''tock''" "tickEmitter [1, 2]"
         exampleBehave "''data''" 2 1 "''tick''"]
       r q e
  show ?thesis by simp
qed

text \<open>
  C10 as the specification words it fails in three ways. A handler registered for
  \<open>tick\<close> twice is still called after one \<open>off\<close>. With handler 3, which unregisters
  itself, registered before handler 1, the \<open>emit\<close> calls handler 3 only: the array has
  shrunk under the loop, and handler 1, registered all along, is skipped. With handler 4,
  which throws, registered before handler 1, the \<open>emit\<close> ends with what was thrown and
  handler 1 is not called.
\<close>

theorem emit_live_array_counterexample:
  "registered ''tick'' (off ''tick'' 1 (handlers (tickEmitter [1, 1]))) = [1]
   \<and> emit 2 exampleBehave ''tick'' ''data''
        ((tickEmitter [1, 1])\<lparr>handlers := off ''tick'' 1 (handlers (tickEmitter [1, 1]))\<rparr>)
       = (Some (Inr ()),
          (tickEmitter [1, 1])\<lparr>handlers := off ''tick'' 1 (handlers (tickEmitter [1, 1])),
                                outside := 1, invoked := [(1, ''data'')]\<rparr>)
   \<and> registered ''tick'' (handlers (tickEmitter [3, 1])) = [3, 1]
   \<and> emit 2 exampleBehave ''tick'' ''data'' (tickEmitter [3, 1])
       = (Some (Inr ()),
          (tickEmitter [3, 1])\<lparr>handlers := off ''tick'' 3 (handlers (tickEmitter [3, 1])),
                                outside := 1, invoked := [(3, ''data'')]\<rparr>)
   \<and> registered ''tick'' (off ''tick'' 3 (handlers (tickEmitter [3, 1]))) = [1]
   \<and> registered ''tick'' (handlers (tickEmitter [4, 1])) = [4, 1]
   \<and> emit 2 exampleBehave ''tick'' ''data'' (tickEmitter [4, 1])
       = (Some (Inl ''boom''),
          (tickEmitter [4, 1])\<lparr>outside := 1, invoked := [(4, ''data'')]\<rparr>)"
  by (simp add: emitter_defs emitFrom.simps)

end
